theory Spec2Isabelle
  imports Complex_Main
begin

section \<open>Python floats: IEEE 754 binary64\<close>

text \<open>
  Every monetary column of \<^verbatim>\<open>main.py\<close> is a \<^verbatim>\<open>Column(Float)\<close> and every monetary
  value is passed through \<^verbatim>\<open>float(...)\<close> before it is used, so the arithmetic of the
  service is the arithmetic of Python's \<^verbatim>\<open>float\<close>: IEEE 754 binary64 with
  round-to-nearest, ties-to-even. A finite float is modelled by the rational number it
  denotes (\<open>Fin r\<close>); the two zeros are not distinguished, since no comparison of the
  service can tell them apart. Results of arithmetic are rounded to a 53-bit significand,
  with gradual underflow (the smallest spacing is \<open>2 ^ -1074\<close>) and overflow to an
  infinity.
\<close>

datatype double = Fin rat | PInf | NInf | NaN

text \<open>\<open>bit_length n\<close> is Python's \<^verbatim>\<open>int.bit_length\<close> for \<open>n \<ge> 0\<close>.\<close>

function bit_length :: "int \<Rightarrow> int" where
  "bit_length n = (if n \<le> 0 then 0 else 1 + bit_length (n div 2))"
  by pat_completeness auto
termination
  by (relation "measure nat") auto

declare bit_length.simps [simp del]

definition pow2 :: "int \<Rightarrow> rat" where
  "pow2 e = (if 0 \<le> e then 2 ^ nat e else 1 / 2 ^ nat (- e))"

text \<open>\<open>ilog2 x\<close> is \<open>\<lfloor>log\<^sub>2 x\<rfloor>\<close> for a rational \<open>x > 0\<close>.\<close>

definition ilog2 :: "rat \<Rightarrow> int" where
  "ilog2 x = (if 1 \<le> x then bit_length \<lfloor>x\<rfloor> - 1
              else - bit_length (\<lceil>1 / x\<rceil> - 1))"

definition round_half_even :: "rat \<Rightarrow> int" where
  "round_half_even y =
     (let f = \<lfloor>y\<rfloor>; d = y - of_int f
      in if d < 1 / 2 then f else if 1 / 2 < d then f + 1 else if even f then f else f + 1)"

text \<open>
  The exponent of the last place of the binade of \<open>x\<close>: 53 significant bits, and never
  below the subnormal spacing.
\<close>

definition quantum :: "rat \<Rightarrow> int" where
  "quantum x = max (ilog2 \<bar>x\<bar> - 52) (- 1074)"

text \<open>\<open>m * 2 ^ e\<close> is at least \<open>2 ^ 1024\<close> in magnitude (\<open>m\<close> has at most 54 bits).\<close>

definition overflows :: "int \<Rightarrow> int \<Rightarrow> bool" where
  "overflows m e = (971 < e \<or> (e = 971 \<and> 2 ^ 53 \<le> \<bar>m\<bar>))"

definition round_double :: "rat \<Rightarrow> double" where
  "round_double x =
     (if x = 0 then Fin 0
      else let e = quantum x;
               m = round_half_even (x / pow2 e)
           in if overflows m e then (if 0 < x then PInf else NInf)
              else Fin (of_int m * pow2 e))"

text \<open>Python's \<^verbatim>\<open>a + b\<close>, \<^verbatim>\<open>a - b\<close>, \<^verbatim>\<open>a < b\<close>, \<^verbatim>\<open>a > b\<close> and \<^verbatim>\<open>a >= b\<close> on floats.\<close>

fun dadd :: "double \<Rightarrow> double \<Rightarrow> double" where
  "dadd (Fin a) (Fin b) = round_double (a + b)"
| "dadd NaN y = NaN"
| "dadd x NaN = NaN"
| "dadd PInf NInf = NaN"
| "dadd NInf PInf = NaN"
| "dadd PInf y = PInf"
| "dadd x PInf = PInf"
| "dadd NInf y = NInf"
| "dadd x NInf = NInf"

fun dneg :: "double \<Rightarrow> double" where
  "dneg (Fin a) = Fin (- a)"
| "dneg PInf = NInf"
| "dneg NInf = PInf"
| "dneg NaN = NaN"

definition dsub :: "double \<Rightarrow> double \<Rightarrow> double" where
  "dsub x y = dadd x (dneg y)"

fun dless :: "double \<Rightarrow> double \<Rightarrow> bool" where
  "dless (Fin a) (Fin b) = (a < b)"
| "dless x NaN = False"
| "dless NaN y = False"
| "dless PInf y = False"
| "dless x NInf = False"
| "dless (Fin a) PInf = True"
| "dless NInf y = True"

definition dgreater :: "double \<Rightarrow> double \<Rightarrow> bool" where
  "dgreater x y = dless y x"

fun dge :: "double \<Rightarrow> double \<Rightarrow> bool" where
  "dge (Fin a) (Fin b) = (b \<le> a)"
| "dge x NaN = False"
| "dge NaN y = False"
| "dge PInf y = True"
| "dge x NInf = True"
| "dge (Fin a) PInf = False"
| "dge NInf y = False"

definition dle :: "double \<Rightarrow> double \<Rightarrow> bool" where
  "dle x y = dge y x"

text \<open>
  A \<^verbatim>\<open>Decimal\<close> is the rational number it denotes. \<^verbatim>\<open>float(d)\<close> is the correctly
  rounded conversion.
\<close>

type_synonym decimal = rat

definition float_of_decimal :: "decimal \<Rightarrow> double" where
  "float_of_decimal d = round_double d"

text \<open>
  The pydantic constraint \<^verbatim>\<open>condecimal(max_digits=20, decimal_places=2)\<close>: at most two
  fractional digits and at most \<open>20 - 2\<close> digits before the point; \<^verbatim>\<open>gt=0\<close> adds
  strict positivity.
\<close>

definition condecimal :: "decimal \<Rightarrow> bool" where
  "condecimal d = (of_int \<lfloor>100 * d\<rfloor> = 100 * d \<and> \<bar>d\<bar> < 10 ^ 18)"

definition condecimal_gt0 :: "decimal \<Rightarrow> bool" where
  "condecimal_gt0 d = (0 < d \<and> condecimal d)"

section \<open>The tables\<close>

text \<open>
  \<^verbatim>\<open>class Account(Base)\<close> and \<^verbatim>\<open>class Transaction(Base)\<close>. The primary keys
  \<^verbatim>\<open>Account.id\<close> and \<^verbatim>\<open>Transaction.id\<close> are the fields \<open>acc_id\<close> and \<open>tx_id\<close>; the
  columns of \<^verbatim>\<open>Transaction\<close> carry the prefix \<open>tx_\<close>. A \<^verbatim>\<open>DateTime\<close> is a naive
  timestamp in microseconds, a \<^verbatim>\<open>date\<close> is a day number. The columns that every writer
  of the service fills (\<^verbatim>\<open>account_id\<close>, \<^verbatim>\<open>balance\<close>, \<^verbatim>\<open>status\<close>, the timestamps,
  \<^verbatim>\<open>customer_name\<close>) are never NULL here. A table is the list of its rows.
\<close>

type_synonym datetime = int
type_synonym date = int

record Account =
  acc_id :: int
  account_id :: int
  customer_id :: int
  account_number :: string
  account_type :: "string option"
  balance :: double
  currency :: "string option"
  status :: string
  created_at :: datetime
  customer_name :: string

record Transaction =
  tx_id :: int
  tx_from_account :: int
  tx_to_account :: int
  tx_amount :: double
  tx_created_at :: datetime

record db =
  accounts :: "Account list"
  transactions :: "Transaction list"

text \<open>
  What a call takes from outside \<^verbatim>\<open>main.py\<close>: the local calendar day
  (\<^verbatim>\<open>date.today()\<close>, in the time zone of the process), the clock that stamps new rows
  (\<^verbatim>\<open>datetime.utcnow()\<close>), whether the store accepts the commit (\<open>Some msg\<close>:
  \<^verbatim>\<open>db.commit()\<close> raises), and the database engine's \<^verbatim>\<open>SUM\<close> over a non-empty
  list of \<^verbatim>\<open>Float\<close> values. How an engine adds floats up is not fixed by the source
  (plain binary64 accumulation in one version, compensated summation in another), so
  the aggregate is a parameter.
\<close>

record world =
  today :: date
  utcnow :: datetime
  commit_error :: "string option"
  sum_floats :: "double list \<Rightarrow> double"

section \<open>Requests, responses and errors\<close>

record CreateAccountRequest =
  req_customer_id :: int
  req_account_number :: string
  req_account_type :: "string option"
  initial_balance :: "decimal option"
  req_currency :: "string option"
  req_customer_name :: "string option"

record CreateAccountResponse =
  resp_account_id :: int
  resp_balance :: double

record TransferRequest =
  from_account :: int
  to_account :: int
  amount :: decimal

record TransferResponse =
  resp_from_account :: int
  resp_to_account :: int
  resp_amount :: double

text \<open>
  The \<^verbatim>\<open>detail\<close> of an \<^verbatim>\<open>HTTPException\<close>: one constructor per message of
  \<^verbatim>\<open>transfer\<close>, carrying the values the message interpolates.
\<close>

datatype detail =
    MustDiffer
  | AccountNotFound
  | SourceCannotTransact string
  | DestinationCannotReceive string
  | InsufficientFunds
  | DailyLimitExceeded double double double
  | TransferFailed string

datatype error =
    HTTPException nat detail
  | TypeError
  | IntegrityError
  | OperationalError string

text \<open>
  What a session does to row locks: \<^verbatim>\<open>with_for_update()\<close> locks the row it returns;
  commit, rollback and close end the transaction and release every lock.
\<close>

datatype event = LockRow int | Commit | Rollback | Close

fun release_or_lock :: "int list \<Rightarrow> event \<Rightarrow> int list" where
  "release_or_lock held (LockRow a) = held @ [a]"
| "release_or_lock held Commit = []"
| "release_or_lock held Rollback = []"
| "release_or_lock held Close = []"

definition locks_held :: "event list \<Rightarrow> int list" where
  "locks_held es = foldl release_or_lock [] es"

text \<open>The rows a session locked, in the order it locked them.\<close>

fun locks_acquired :: "event list \<Rightarrow> int list" where
  "locks_acquired [] = []"
| "locks_acquired (LockRow a # es) = a # locks_acquired es"
| "locks_acquired (e # es) = locks_acquired es"

section \<open>Account creation\<close>

text \<open>\<^verbatim>\<open>str(n)\<close> for an integer, as the f-string \<^verbatim>\<open>f"Customer {req.customer_id}"\<close> formats it.\<close>

function str_nat :: "nat \<Rightarrow> string" where
  "str_nat n = (if n < 10 then [''0123456789'' ! n]
                else str_nat (n div 10) @ [''0123456789'' ! (n mod 10)])"
  by pat_completeness auto
termination
  by (relation "measure id") auto

declare str_nat.simps [simp del]

definition str_int :: "int \<Rightarrow> string" where
  "str_int i = (if i < 0 then ''-'' @ str_nat (nat (- i)) else str_nat (nat i))"

text \<open>\<^verbatim>\<open>SELECT max(col)\<close>: \<open>None\<close> (SQL NULL) on an empty table.\<close>

fun sql_max :: "int list \<Rightarrow> int option" where
  "sql_max [] = None"
| "sql_max (x # xs) = Some (fold max xs x)"

text \<open>The integer primary key the store assigns to a new row.\<close>

definition next_rowid :: "int list \<Rightarrow> int" where
  "next_rowid ids = (case sql_max ids of None \<Rightarrow> 1 | Some m \<Rightarrow> m + 1)"

text \<open>
  \<^verbatim>\<open>create_account\<close>. \<^verbatim>\<open>float(req.initial_balance)\<close> raises on \<^verbatim>\<open>None\<close>; the
  insert fails on a duplicate \<^verbatim>\<open>account_number\<close> (a unique column) or when the store
  refuses the commit, and a failed insert leaves the table as it was. A \<^verbatim>\<open>currency\<close> of
  \<^verbatim>\<open>None\<close> is left out of the insert, so the row gets the column default
  \<^verbatim>\<open>"INR"\<close>; \<^verbatim>\<open>account_type\<close> has no default and stays NULL.
\<close>

definition create_account ::
  "world \<Rightarrow> db \<Rightarrow> CreateAccountRequest \<Rightarrow> (error + CreateAccountResponse) \<times> db" where
  "create_account w d req =
     (let max_id = (case sql_max (map account_id (accounts d)) of None \<Rightarrow> 0 | Some m \<Rightarrow> m);
          new_account_id = max_id + 1
      in case initial_balance req of
           None \<Rightarrow> (Inl TypeError, d)
         | Some b \<Rightarrow>
             let acc = \<lparr> acc_id = next_rowid (map acc_id (accounts d)),
                         account_id = new_account_id,
                         customer_id = req_customer_id req,
                         account_number = req_account_number req,
                         account_type = req_account_type req,
                         balance = float_of_decimal b,
                         currency =
                           (case req_currency req of None \<Rightarrow> Some ''INR'' | Some c \<Rightarrow> Some c),
                         status = ''ACTIVE'',
                         created_at = utcnow w,
                         customer_name =
                           (case req_customer_name req of
                              None \<Rightarrow> ''Customer '' @ str_int (req_customer_id req)
                            | Some n \<Rightarrow>
                                if n = [] then ''Customer '' @ str_int (req_customer_id req) else n) \<rparr>
             in if req_account_number req \<in> set (map account_number (accounts d))
                then (Inl IntegrityError, d)
                else (case commit_error w of
                        Some msg \<Rightarrow> (Inl (OperationalError msg), d)
                      | None \<Rightarrow>
                          (Inr \<lparr> resp_account_id = account_id acc, resp_balance = balance acc \<rparr>,
                           d\<lparr> accounts := accounts d @ [acc] \<rparr>)))"

section \<open>The daily-limit aggregate\<close>

text \<open>
  \<^verbatim>\<open>datetime.combine(day, datetime.min.time())\<close> and
  \<^verbatim>\<open>datetime.combine(day, datetime.max.time())\<close>: midnight and 23:59:59.999999.
\<close>

definition combine_min :: "date \<Rightarrow> datetime" where
  "combine_min day = day * 86400000000"

definition combine_max :: "date \<Rightarrow> datetime" where
  "combine_max day = day * 86400000000 + 86399999999"

text \<open>
  \<^verbatim>\<open>func.sum\<close> over a \<^verbatim>\<open>Float\<close> column: NULL on no rows, else the engine's sum of
  the rows.
\<close>

definition sql_sum :: "(double list \<Rightarrow> double) \<Rightarrow> double list \<Rightarrow> double option" where
  "sql_sum agg xs = (if xs = [] then None else Some (agg xs))"

definition coalesce :: "'a option \<Rightarrow> 'a \<Rightarrow> 'a" where
  "coalesce v dflt = (case v of None \<Rightarrow> dflt | Some x \<Rightarrow> x)"

text \<open>
  \<^verbatim>\<open>todays_transferred_sum\<close>. \<open>sent_today\<close> is the conjunction of its three
  \<^verbatim>\<open>.filter(...)\<close> clauses: the sender, and \<^verbatim>\<open>created_at\<close> between \<^verbatim>\<open>start\<close> and
  \<^verbatim>\<open>end\<close> of the local day (the two reads of \<^verbatim>\<open>date.today()\<close> fall on one day).
  The result is \<^verbatim>\<open>float(s or 0.0)\<close>.
\<close>

definition sent_today :: "world \<Rightarrow> int \<Rightarrow> Transaction \<Rightarrow> bool" where
  "sent_today w from_account_id t =
     (let start = combine_min (today w); end' = combine_max (today w)
      in tx_from_account t = from_account_id \<and> start \<le> tx_created_at t \<and> tx_created_at t \<le> end')"

definition todays_transferred_sum :: "world \<Rightarrow> db \<Rightarrow> int \<Rightarrow> double" where
  "todays_transferred_sum w d from_account_id =
     (let s = coalesce
                (sql_sum (sum_floats w)
                   (map tx_amount (filter (sent_today w from_account_id) (transactions d))))
                (Fin 0)
      in if s = Fin 0 then Fin 0 else s)"

section \<open>The transfer engine\<close>

text \<open>
  \<^verbatim>\<open>db.query(Account).filter(Account.account_id == k).with_for_update().first()\<close>:
  the first row with that \<^verbatim>\<open>account_id\<close>, locked; nothing is locked when no row matches.
\<close>

definition first_for_update :: "db \<Rightarrow> int \<Rightarrow> Account option \<times> event list" where
  "first_for_update d k =
     (case find (\<lambda>a. account_id a = k) (accounts d) of
        None \<Rightarrow> (None, [])
      | Some a \<Rightarrow> (Some a, [LockRow k]))"

text \<open>
  The flush of a dirty \<^verbatim>\<open>Account\<close> object whose \<^verbatim>\<open>balance\<close> was assigned:
  \<^verbatim>\<open>UPDATE accounts SET balance = ? WHERE accounts.id = ?\<close>.
\<close>

definition update_balance :: "Account \<Rightarrow> double \<Rightarrow> Account list \<Rightarrow> Account list" where
  "update_balance obj b rows = map (\<lambda>r. if acc_id r = acc_id obj then r\<lparr> balance := b \<rparr> else r) rows"

record outcome =
  result :: "error + TransferResponse"
  store :: db
  events :: "event list"

definition rejected :: "nat \<Rightarrow> detail \<Rightarrow> db \<Rightarrow> event list \<Rightarrow> outcome" where
  "rejected code msg d es = \<lparr> result = Inl (HTTPException code msg), store = d, events = es @ [Close] \<rparr>"

text \<open>
  \<^verbatim>\<open>transfer\<close>, with \<^verbatim>\<open>DAILY_LIMIT\<close> the module constant read from the environment at
  import. An \<^verbatim>\<open>HTTPException\<close> raised before the inner \<^verbatim>\<open>try\<close> leaves through
  \<^verbatim>\<open>finally: db.close()\<close> with nothing flushed. Inside the \<^verbatim>\<open>try\<close> only
  \<^verbatim>\<open>db.commit()\<close> can raise; the handler rolls the session back, so the stored tables
  are the ones before the call.
\<close>

definition transfer :: "double \<Rightarrow> world \<Rightarrow> db \<Rightarrow> TransferRequest \<Rightarrow> outcome" where
  "transfer DAILY_LIMIT w d req =
     (if from_account req = to_account req then rejected 400 MustDiffer d []
      else
        let (src, ev1) = first_for_update d (from_account req);
            (dst, ev2) = first_for_update d (to_account req);
            locks = ev1 @ ev2
        in case src of
             None \<Rightarrow> rejected 404 AccountNotFound d locks
           | Some s \<Rightarrow>
              (case dst of
                 None \<Rightarrow> rejected 404 AccountNotFound d locks
               | Some t \<Rightarrow>
                   if status s \<noteq> ''ACTIVE'' then
                     rejected 400 (SourceCannotTransact (status s)) d locks
                   else if status t \<noteq> ''ACTIVE'' then
                     rejected 400 (DestinationCannotReceive (status t)) d locks
                   else
                     let amt = float_of_decimal (amount req) in
                     if dless (balance s) amt then rejected 400 InsufficientFunds d locks
                     else
                       let transferred_today = todays_transferred_sum w d (from_account req) in
                       if dgreater (dadd transferred_today amt) DAILY_LIMIT then
                         rejected 400 (DailyLimitExceeded DAILY_LIMIT transferred_today amt) d locks
                       else
                         (case commit_error w of
                            Some msg \<Rightarrow>
                              \<lparr> result = Inl (HTTPException 500 (TransferFailed msg)),
                                store = d,
                                events = locks @ [Rollback, Close] \<rparr>
                          | None \<Rightarrow>
                              let tx = \<lparr> tx_id = next_rowid (map tx_id (transactions d)),
                                         tx_from_account = from_account req,
                                         tx_to_account = to_account req,
                                         tx_amount = amt,
                                         tx_created_at = utcnow w \<rparr>
                              in \<lparr> result = Inr \<lparr> resp_from_account = account_id s,
                                                  resp_to_account = account_id t,
                                                  resp_amount = amt \<rparr>,
                                   store = d\<lparr> accounts :=
                                                update_balance t (dadd (balance t) amt)
                                                  (update_balance s (dsub (balance s) amt) (accounts d)),
                                              transactions := transactions d @ [tx] \<rparr>,
                                   events = locks @ [Commit, Close] \<rparr>)))"

section \<open>Sample data\<close>

text \<open>
  Three accounts in the shape of the rows \<^verbatim>\<open>test_api.py\<close> expects from the sample CSV:
  accounts 1 and 3 are active, account 2 is frozen.
\<close>

definition sample_account :: "int \<Rightarrow> double \<Rightarrow> string \<Rightarrow> Account" where
  "sample_account k b st =
     \<lparr> acc_id = k, account_id = k, customer_id = 100 + k, account_number = ''AC'' @ str_int k,
       account_type = Some ''SAVINGS'', balance = b, currency = Some ''INR'', status = st,
       created_at = 0, customer_name = ''Customer '' @ str_int (100 + k) \<rparr>"

definition sample_db :: db where
  "sample_db =
     \<lparr> accounts = [sample_account 1 (Fin 5000) ''ACTIVE'',
                    sample_account 2 (Fin 700) ''FROZEN'',
                    sample_account 3 (Fin 250) ''ACTIVE''],
       transactions = [] \<rparr>"

text \<open>Plain binary64 accumulation in table order, one way an engine computes \<^verbatim>\<open>SUM\<close>.\<close>

fun plain_sum :: "double list \<Rightarrow> double" where
  "plain_sum [] = Fin 0"
| "plain_sum (x # xs) = foldl dadd x xs"

text \<open>
  A process whose local day is the UTC day: day 20000, 01:00:00 on both clocks.
\<close>

definition sample_world :: world where
  "sample_world =
     \<lparr> today = 20000, utcnow = 20000 * 86400000000 + 3600000000, commit_error = None,
       sum_floats = plain_sum \<rparr>"

text \<open>
  A process fourteen hours ahead of UTC (\<^verbatim>\<open>TZ=Pacific/Kiritimati\<close>) at 12:00:00 UTC of day
  20000, and one second later: the local time is 02:00:00 and 02:00:01 of day 20001. The
  \<^verbatim>\<open>SUM\<close> of the engine is left open.
\<close>

definition ahead_world :: "(double list \<Rightarrow> double) \<Rightarrow> world" where
  "ahead_world agg =
     \<lparr> today = 20001, utcnow = 20000 * 86400000000 + 43200000000, commit_error = None,
       sum_floats = agg \<rparr>"

definition ahead_world_later :: "(double list \<Rightarrow> double) \<Rightarrow> world" where
  "ahead_world_later agg =
     \<lparr> today = 20001, utcnow = 20000 * 86400000000 + 43201000000, commit_error = None,
       sum_floats = agg \<rparr>"

definition sample_request :: "int \<Rightarrow> int \<Rightarrow> decimal \<Rightarrow> TransferRequest" where
  "sample_request a b x = \<lparr> from_account = a, to_account = b, amount = x \<rparr>"

text \<open>The balance of an account as \<^verbatim>\<open>get_account\<close> reads it: from the first row with that \<^verbatim>\<open>account_id\<close>.\<close>

definition balance_of :: "db \<Rightarrow> int \<Rightarrow> double option" where
  "balance_of d k = map_option balance (find (\<lambda>a. account_id a = k) (accounts d))"

text \<open>Two accounts holding 0.02 and 0.04, as \<^verbatim>\<open>float(Decimal)\<close> stores these amounts.\<close>

definition cents_db :: db where
  "cents_db =
     \<lparr> accounts = [sample_account 1 (float_of_decimal (2 / 100)) ''ACTIVE'',
                    sample_account 3 (float_of_decimal (4 / 100)) ''ACTIVE''],
       transactions = [] \<rparr>"

text \<open>A request for a fourth account with a given opening balance.\<close>

definition sample_create :: "decimal \<Rightarrow> CreateAccountRequest" where
  "sample_create b =
     \<lparr> req_customer_id = 104, req_account_number = ''AC4'', req_account_type = Some ''SAVINGS'',
       initial_balance = Some b, req_currency = Some ''INR'', req_customer_name = None \<rparr>"

section \<open>Evaluation of the float model\<close>

lemma floor_rat_numeral [simp]:
  "\<lfloor>(numeral a / numeral b :: rat)\<rfloor> = numeral a div numeral b"
  using floor_divide_of_int_eq [of "numeral a" "numeral b", where ?'a = rat] by simp

lemma floor_rat_neg_numeral [simp]:
  "\<lfloor>(- (numeral a / numeral b) :: rat)\<rfloor> = - numeral a div numeral b"
  using floor_divide_of_int_eq [of "- numeral a" "numeral b", where ?'a = rat] by simp

lemma ceiling_rat_numeral [simp]:
  "\<lceil>(numeral a / numeral b :: rat)\<rceil> = - (- numeral a div numeral b)"
  using ceiling_divide_eq_div [of "numeral a" "numeral b", where ?'a = rat] by simp

lemmas round_double_eval =
  round_double_def quantum_def ilog2_def bit_length.simps round_half_even_def pow2_def
  Let_def overflows_def

lemma round_double_100: "round_double 100 = Fin 100"
  by (simp add: round_double_eval)

lemma rounding_samples:
  "round_double 1 = Fin 1" "round_double 1000 = Fin 1000" "round_double 1001 = Fin 1001"
  by (simp_all add: round_double_eval)

lemma float_100: "float_of_decimal 100 = Fin 100"
  by (simp add: float_of_decimal_def round_double_eval)

lemma float_6000: "float_of_decimal 6000 = Fin 6000"
  by (simp add: float_of_decimal_def round_double_eval)

lemma float_tenth: "float_of_decimal (1 / 10) = Fin (3602879701896397 / 36028797018963968)"
  by (simp add: float_of_decimal_def round_double_eval)

lemma cents_values:
  "float_of_decimal (1 / 100) = Fin (5764607523034235 / 576460752303423488)"
  "float_of_decimal (1 / 50) = Fin (5764607523034235 / 288230376151711744)"
  "float_of_decimal (1 / 25) = Fin (5764607523034235 / 144115188075855872)"
  by (simp_all add: float_of_decimal_def round_double_eval)

section \<open>The rounding function\<close>

text \<open>
  \<open>ilog2\<close> is the binary logarithm rounded down, so the significand that
  \<open>round_double\<close> keeps has at most 53 bits and the result is within half a unit in
  the last place of its argument. Rounding keeps the sign, is exact on integers below
  \<open>2 ^ 53\<close>, and does not overflow below \<open>2 ^ 1000\<close>.
\<close>

lemma bit_length_nonneg: "0 \<le> bit_length n"
proof (induction n rule: bit_length.induct)
  case (1 n)
  then show ?case by (subst bit_length.simps) auto
qed

lemma bit_length_upper: "0 \<le> n \<Longrightarrow> n < 2 ^ nat (bit_length n)"
proof (induction n rule: bit_length.induct)
  case (1 n)
  show ?case
  proof (cases "n \<le> 0")
    case True
    with "1.prems" show ?thesis by (subst bit_length.simps) simp
  next
    case False
    then have ih: "n div 2 < 2 ^ nat (bit_length (n div 2))"
      using "1.IH" by simp
    have "bit_length n = 1 + bit_length (n div 2)"
      using False by (subst bit_length.simps) simp
    then have "nat (bit_length n) = Suc (nat (bit_length (n div 2)))"
      using bit_length_nonneg [of "n div 2"] by simp
    then have p: "(2::int) ^ nat (bit_length n) = 2 * 2 ^ nat (bit_length (n div 2))"
      by simp
    have "n \<le> 2 * (n div 2) + 1" by presburger
    with ih show ?thesis unfolding p by linarith
  qed
qed

lemma bit_length_lower: "0 < n \<Longrightarrow> 2 ^ nat (bit_length n - 1) \<le> n"
proof (induction n rule: bit_length.induct)
  case (1 n)
  then have pos: "\<not> n \<le> 0" by simp
  have bl: "bit_length n = 1 + bit_length (n div 2)"
    using pos by (subst bit_length.simps) simp
  show ?case
  proof (cases "n div 2 = 0")
    case True
    then have "bit_length (n div 2) = 0" by (subst bit_length.simps) simp
    with bl "1.prems" show ?thesis by simp
  next
    case False
    with "1.prems" have p2: "0 < n div 2" by (simp add: pos_imp_zdiv_pos_iff) 
    then have ih: "2 ^ nat (bit_length (n div 2) - 1) \<le> n div 2"
      using "1.IH" pos by simp
    have "0 < bit_length (n div 2)"
      using p2 bit_length_nonneg [of "n div 2 div 2"] by (subst bit_length.simps) simp
    then have "nat (bit_length n - 1) = Suc (nat (bit_length (n div 2) - 1))"
      using bl by simp
    then have p: "(2::int) ^ nat (bit_length n - 1) = 2 * 2 ^ nat (bit_length (n div 2) - 1)"
      by simp
    have "2 * (n div 2) \<le> n" by presburger
    with ih show ?thesis unfolding p by linarith
  qed
qed

lemma bit_length_bound: "n < 2 ^ k \<Longrightarrow> bit_length n \<le> int k"
proof (cases "0 < n")
  case True
  assume "n < 2 ^ k"
  with bit_length_lower [OF True] have "(2::int) ^ nat (bit_length n - 1) < 2 ^ k"
    by (rule le_less_trans)
  then have "nat (bit_length n - 1) < k" by simp
  then show ?thesis by simp
next
  case False
  then have "bit_length n = 0" by (subst bit_length.simps) simp
  then show ?thesis by simp
qed

lemma pow2_pos: "0 < pow2 e"
  by (simp add: pow2_def)

lemma pow2_powi: "pow2 e = 2 powi e"
  by (simp add: pow2_def power_int_def power_one_over)

lemma pow2_add: "pow2 (a + b) = pow2 a * pow2 b"
  by (simp add: pow2_powi power_int_add)

lemma pow2_mono: "a \<le> b \<Longrightarrow> pow2 a \<le> pow2 b"
  by (simp add: pow2_powi power_int_increasing)

lemma round_half_even_nonneg: "0 \<le> y \<Longrightarrow> 0 \<le> round_half_even y"
  by (auto simp: round_half_even_def Let_def)

lemma round_half_even_err: "\<bar>of_int (round_half_even y) - y\<bar> \<le> 1 / 2"
proof -
  have "of_int \<lfloor>y\<rfloor> \<le> y" "y < of_int \<lfloor>y\<rfloor> + 1" by linarith+
  then show ?thesis by (auto simp: round_half_even_def Let_def)
qed

lemma round_half_even_ge: "of_int n \<le> y \<Longrightarrow> n \<le> round_half_even y"
proof -
  assume "of_int n \<le> y"
  then have "n \<le> \<lfloor>y\<rfloor>" by (simp add: le_floor_iff)
  then show ?thesis by (simp add: round_half_even_def Let_def)
qed

lemma round_half_even_le: "y \<le> of_int n \<Longrightarrow> round_half_even y \<le> n"
proof -
  assume y: "y \<le> of_int n"
  show ?thesis
  proof (cases "y = of_int n")
    case True
    then show ?thesis by (simp add: round_half_even_def)
  next
    case False
    with y have "y < of_int n" by simp
    then have "\<lfloor>y\<rfloor> < n" by (simp add: floor_less_iff)
    then show ?thesis by (simp add: round_half_even_def Let_def)
  qed
qed

lemma round_half_even_of_int: "round_half_even (of_int j) = j"
  by (simp add: round_half_even_def)

lemma ilog2_lower: "0 < x \<Longrightarrow> pow2 (ilog2 x) \<le> x"
proof (cases "1 \<le> x")
  case True
  then have f: "0 < \<lfloor>x\<rfloor>" by linarith
  have "pow2 (ilog2 x) = 2 ^ nat (bit_length \<lfloor>x\<rfloor> - 1)"
    using True f bit_length_lower [OF f] bit_length_nonneg [of "\<lfloor>x\<rfloor> div 2"]
    by (subst (asm) bit_length.simps) (simp add: ilog2_def pow2_def bit_length.simps [of "\<lfloor>x\<rfloor>"])
  also have "\<dots> = of_int (2 ^ nat (bit_length \<lfloor>x\<rfloor> - 1))" by simp
  also have "\<dots> \<le> of_int \<lfloor>x\<rfloor>" using bit_length_lower [OF f] by (simp only: of_int_le_iff)
  also have "\<dots> \<le> x" by linarith
  finally show ?thesis .
next
  case False
  assume x: "0 < x"
  define n where "n = \<lceil>1 / x\<rceil> - 1"
  have "1 < 1 / x" using False x by simp
  then have n0: "0 \<le> n" unfolding n_def by linarith
  have "1 / x \<le> of_int (n + 1)" unfolding n_def by simp
  also have "of_int (n + 1) \<le> (of_int (2 ^ nat (bit_length n)) :: rat)"
    using bit_length_upper [OF n0] by (simp only: of_int_le_iff)
  finally have "1 / x \<le> 2 ^ nat (bit_length n)" by simp
  then have "1 / 2 ^ nat (bit_length n) \<le> x" using x
    by (simp add: field_simps)
  moreover have "pow2 (ilog2 x) = 1 / 2 ^ nat (bit_length n)"
    using False bit_length_nonneg [of n] by (auto simp: ilog2_def pow2_def n_def)
  ultimately show ?thesis by simp
qed

lemma ilog2_upper_bound: "0 < x \<Longrightarrow> x < pow2 (ilog2 x + 1)"
proof (cases "1 \<le> x")
  case True
  then have f: "0 \<le> \<lfloor>x\<rfloor>" by linarith
  have "x < of_int (\<lfloor>x\<rfloor> + 1)" by linarith
  also have "\<dots> \<le> of_int (2 ^ nat (bit_length \<lfloor>x\<rfloor>))"
    using bit_length_upper [OF f] by (simp only: of_int_le_iff)
  also have "\<dots> = pow2 (ilog2 x + 1)"
    using True bit_length_nonneg [of "\<lfloor>x\<rfloor>"] by (simp add: ilog2_def pow2_def)
  finally show ?thesis .
next
  case False
  assume x: "0 < x"
  define n where "n = \<lceil>1 / x\<rceil> - 1"
  have "1 < 1 / x" using False x by simp
  then have n0: "0 < n" unfolding n_def by linarith
  have b0: "0 < bit_length n"
    using n0 bit_length_nonneg [of "n div 2"] by (subst bit_length.simps) simp
  have "of_int n < 1 / x" unfolding n_def by linarith
  moreover have "(of_int (2 ^ nat (bit_length n - 1)) :: rat) \<le> of_int n"
    using bit_length_lower [OF n0] by (simp only: of_int_le_iff)
  then have "(2::rat) ^ nat (bit_length n - 1) \<le> of_int n" by simp
  ultimately have "2 ^ nat (bit_length n - 1) < 1 / x" by linarith
  then have "x < 1 / 2 ^ nat (bit_length n - 1)" using x by (simp add: field_simps)
  moreover have "pow2 (ilog2 x + 1) = 1 / 2 ^ nat (bit_length n - 1)"
    using False b0 by (auto simp: ilog2_def pow2_def n_def)
  ultimately show ?thesis by (simp only:)
qed

lemma ilog2_upper: "0 < x \<Longrightarrow> x < 2 ^ k \<Longrightarrow> ilog2 x < int k"
proof (cases "1 \<le> x")
  case True
  assume "x < 2 ^ k"
  then have "x < of_int (2 ^ k)" by simp
  then have "\<lfloor>x\<rfloor> < 2 ^ k" by (simp only: floor_less_iff)
  then have "bit_length \<lfloor>x\<rfloor> \<le> int k" by (rule bit_length_bound)
  then show ?thesis using True by (simp add: ilog2_def)
next
  case False
  assume x: "0 < x"
  have "1 < 1 / x" using False x by simp
  then have n: "0 < \<lceil>1 / x\<rceil> - 1" by linarith
  have "0 < bit_length (\<lceil>1 / x\<rceil> - 1)"
    using n bit_length_nonneg [of "(\<lceil>1 / x\<rceil> - 1) div 2"] by (subst bit_length.simps) simp
  then show ?thesis using False by (simp add: ilog2_def)
qed

lemma ilog2_ge: "0 < x \<Longrightarrow> 1 / 2 ^ k \<le> x \<Longrightarrow> - int k \<le> ilog2 x"
proof (cases "1 \<le> x")
  case True
  then have "0 < \<lfloor>x\<rfloor>" by linarith
  then have "0 < bit_length \<lfloor>x\<rfloor>"
    using bit_length_nonneg [of "\<lfloor>x\<rfloor> div 2"] by (subst bit_length.simps) simp
  then show ?thesis using True by (simp add: ilog2_def)
next
  case False
  assume x: "0 < x" and k: "1 / 2 ^ k \<le> x"
  from x k have "1 / x \<le> 2 ^ k" by (simp add: field_simps)
  then have "1 / x \<le> of_int (2 ^ k)" by simp
  then have "\<lceil>1 / x\<rceil> \<le> 2 ^ k" by (simp only: ceiling_le_iff)
  then have "\<lceil>1 / x\<rceil> - 1 < 2 ^ k" by simp
  then have "bit_length (\<lceil>1 / x\<rceil> - 1) \<le> int k" by (rule bit_length_bound)
  then show ?thesis using False by (simp add: ilog2_def)
qed

lemma round_double_significand:
  assumes "x \<noteq> 0"
  shows "\<bar>round_half_even (x / pow2 (quantum x))\<bar> \<le> 2 ^ 53"
proof -
  have pos: "0 < \<bar>x\<bar>" using assms by simp
  define p where "p = pow2 (quantum x)"
  have p0: "0 < p" by (simp add: p_def pow2_pos)
  have "pow2 (ilog2 \<bar>x\<bar> - 52) \<le> p"
    unfolding p_def by (rule pow2_mono) (simp add: quantum_def)
  moreover have "pow2 (ilog2 \<bar>x\<bar> + 1) = 2 ^ 53 * pow2 (ilog2 \<bar>x\<bar> - 52)"
  proof -
    have e: "ilog2 \<bar>x\<bar> + 1 = 53 + (ilog2 \<bar>x\<bar> - 52)" by simp
    have "pow2 (ilog2 \<bar>x\<bar> + 1) = pow2 53 * pow2 (ilog2 \<bar>x\<bar> - 52)"
      unfolding e by (rule pow2_add)
    moreover have "pow2 53 = 2 ^ 53" by (simp add: pow2_def)
    ultimately show ?thesis by simp
  qed
  ultimately have "\<bar>x\<bar> < 2 ^ 53 * p" using ilog2_upper_bound [OF pos] by simp
  then have b: "\<bar>x / p\<bar> \<le> of_int (2 ^ 53)" using p0 by (simp add: field_simps abs_mult)
  have u: "x / p \<le> of_int (2 ^ 53)" and l: "of_int (- (2 ^ 53)) \<le> x / p" using b by linarith+
  have "round_half_even (x / p) \<le> 2 ^ 53" using u by (rule round_half_even_le)
  moreover have "- (2 ^ 53) \<le> round_half_even (x / p)" using l by (rule round_half_even_ge)
  ultimately have "round_half_even (x / p) \<le> 2 ^ 53" "- (2 ^ 53) \<le> round_half_even (x / p)"
    by simp_all
  then show ?thesis unfolding p_def by simp
qed

lemma round_double_nonneg: "0 \<le> x \<Longrightarrow> dge (round_double x) (Fin 0)"
proof -
  assume x: "0 \<le> x"
  have "0 \<le> x / pow2 (quantum x)" using x pow2_pos [of "quantum x"] by simp
  then have m: "0 \<le> round_half_even (x / pow2 (quantum x))" by (rule round_half_even_nonneg)
  then have "0 \<le> of_int (round_half_even (x / pow2 (quantum x))) * pow2 (quantum x)"
    using pow2_pos [of "quantum x"] by simp
  then show ?thesis using x
    by (auto simp: round_double_def Let_def)
qed

lemma round_double_finite:
  assumes "\<bar>x\<bar> < 2 ^ 1000"
  shows "\<exists>r. round_double x = Fin r"
proof (cases "x = 0")
  case True
  then show ?thesis by (simp add: round_double_def)
next
  case False
  then have "0 < \<bar>x\<bar>" by simp
  from ilog2_upper [OF this assms] have "quantum x < 971" by (simp add: quantum_def)
  then show ?thesis by (simp add: round_double_def Let_def overflows_def)
qed

lemma round_double_error:
  assumes fin: "\<bar>x\<bar> < 2 ^ 1000" and big: "x = 0 \<or> 1 / 2 ^ 1000 \<le> \<bar>x\<bar>"
  shows "\<exists>r. round_double x = Fin r \<and> \<bar>r - x\<bar> \<le> \<bar>x\<bar> / 2 ^ 53"
proof (cases "x = 0")
  case True
  then show ?thesis by (simp add: round_double_def)
next
  case False
  then have pos: "0 < \<bar>x\<bar>" by simp
  with big False have lo: "1 / 2 ^ 1000 \<le> \<bar>x\<bar>" by simp
  from ilog2_upper [OF pos fin] have q1: "quantum x < 971" by (simp add: quantum_def)
  from ilog2_ge [OF pos lo] have q: "quantum x = ilog2 \<bar>x\<bar> - 52" by (simp add: quantum_def)
  define p where "p = pow2 (quantum x)"
  define m where "m = round_half_even (x / p)"
  have p0: "0 < p" by (simp add: p_def pow2_pos)
  have r: "round_double x = Fin (of_int m * p)"
    using False q1 by (simp add: round_double_def Let_def overflows_def m_def p_def)
  have "of_int m * p - x = (of_int m - x / p) * p" using p0 by (simp add: field_simps)
  then have "\<bar>of_int m * p - x\<bar> = \<bar>of_int m - x / p\<bar> * p"
    using p0 by (simp add: abs_mult)
  also have "\<dots> \<le> (1 / 2) * p"
    using round_half_even_err [of "x / p"] p0 unfolding m_def by (intro mult_right_mono) simp_all
  finally have e1: "\<bar>of_int m * p - x\<bar> \<le> p / 2" by simp
  have "p = pow2 (ilog2 \<bar>x\<bar>) * pow2 (- 52)"
    unfolding p_def q using pow2_add [of "ilog2 \<bar>x\<bar>" "- 52"] by simp
  then have "p / 2 = pow2 (ilog2 \<bar>x\<bar>) / 2 ^ 53"
    by (simp add: pow2_def)
  also have "\<dots> \<le> \<bar>x\<bar> / 2 ^ 53"
    using ilog2_lower [OF pos] by (simp add: divide_right_mono)
  finally have "\<bar>of_int m * p - x\<bar> \<le> \<bar>x\<bar> / 2 ^ 53" using e1 by linarith
  then show ?thesis using r by simp
qed

lemma round_double_ge_1:
  assumes "1 \<le> x"
  shows "dge (round_double x) (Fin 1)"
proof -
  from assms have pos: "0 < x" and ax: "\<bar>x\<bar> = x" by simp_all
  from ilog2_ge [OF pos, of 0] assms have l0: "0 \<le> ilog2 x" by simp
  then have q: "quantum x = ilog2 x - 52" by (simp add: quantum_def ax)
  define p where "p = pow2 (quantum x)"
  define m where "m = round_half_even (x / p)"
  have p0: "0 < p" by (simp add: p_def pow2_pos)
  have pp: "pow2 (ilog2 x) = 2 ^ 52 * p"
    unfolding p_def q using pow2_add [of "52" "ilog2 x - 52"] by (simp add: pow2_def)
  have "2 ^ 52 * p \<le> x" using ilog2_lower [OF pos] pp by simp
  then have "of_int (2 ^ 52) \<le> x / p" using p0 by (simp add: field_simps)
  then have m52: "2 ^ 52 \<le> m" unfolding m_def by (rule round_half_even_ge)
  have "1 \<le> pow2 (ilog2 x)" using pow2_mono [OF l0] by (simp add: pow2_def)
  also have "\<dots> = 2 ^ 52 * p" by (rule pp)
  also have "\<dots> \<le> of_int m * p"
  proof -
    from m52 have "(of_int (2 ^ 52) :: rat) \<le> of_int m" by (simp only: of_int_le_iff)
    then have "(2 ^ 52 :: rat) \<le> of_int m" by simp
    then show ?thesis using p0 by (intro mult_right_mono) simp_all
  qed
  finally have "1 \<le> of_int m * p" .
  then show ?thesis using pos
    by (simp add: round_double_def Let_def m_def p_def)
qed

lemma round_double_of_int:
  assumes "\<bar>n\<bar> < 2 ^ 53"
  shows "round_double (of_int n) = Fin (of_int n)"
proof (cases "n = 0")
  case True
  then show ?thesis by (simp add: round_double_def)
next
  case False
  define x :: rat where "x = of_int n"
  have pos: "0 < \<bar>x\<bar>" using False by (simp add: x_def)
  have "\<bar>x\<bar> = of_int \<bar>n\<bar>" by (simp add: x_def)
  also have "\<dots> < of_int (2 ^ 53)" using assms by (simp only: of_int_less_iff)
  finally have "\<bar>x\<bar> < 2 ^ 53" by simp
  from ilog2_upper [OF pos this] have q: "quantum x \<le> 0" by (simp add: quantum_def)
  define k where "k = nat (- quantum x)"
  define m where "m = round_half_even (x / pow2 (quantum x))"
  have p: "pow2 (quantum x) = 1 / 2 ^ k"
    using q by (cases "quantum x = 0") (simp_all add: pow2_def k_def)
  have "x / pow2 (quantum x) = of_int (n * 2 ^ k)" unfolding p by (simp add: x_def)
  then have m: "m = n * 2 ^ k" unfolding m_def by (simp only: round_half_even_of_int)
  have "\<not> overflows m (quantum x)" using q by (simp add: overflows_def)
  then have "round_double x = Fin (of_int m * pow2 (quantum x))"
    using pos by (simp add: round_double_def Let_def m_def)
  also have "of_int m * pow2 (quantum x) = x" unfolding m p by (simp add: x_def)
  finally show ?thesis by (simp add: x_def)
qed

section \<open>Float comparisons, sums and differences\<close>

lemma dge_not_dless: "dge x y \<Longrightarrow> \<not> dless x y"
  by (cases x; cases y) auto

lemma dsub_nonneg:
  assumes "dge b (Fin 0)" and "\<not> dless b (Fin a)"
  shows "dge (dsub b (Fin a)) (Fin 0)"
  using assms by (cases b) (auto simp: dsub_def intro: round_double_nonneg)

lemma dadd_nonneg:
  assumes "dge b (Fin 0)" and "0 \<le> a"
  shows "dge (dadd b (Fin a)) (Fin 0)"
  using assms by (cases b) (auto intro: round_double_nonneg)

lemma dsub_ge_1:
  assumes "dge b (Fin (a + 1))"
  shows "dge (dsub b (Fin a)) (Fin 1)"
  using assms by (cases b) (auto simp: dsub_def intro: round_double_ge_1)

lemma dge_1001_funds:
  assumes "dge b (Fin 1001)"
  shows "\<not> dless b (Fin 1001)" "\<not> dless b (Fin 1000)" "\<not> dless (dsub b (Fin 1000)) (Fin 1)"
proof -
  show "\<not> dless b (Fin 1001)" using assms by (rule dge_not_dless)
  show "\<not> dless b (Fin 1000)" using assms by (cases b) auto
  have "dge b (Fin (1000 + 1))" using assms by simp
  then have "dge (dsub b (Fin 1000)) (Fin 1)" by (rule dsub_ge_1)
  then show "\<not> dless (dsub b (Fin 1000)) (Fin 1)" by (rule dge_not_dless)
qed

lemma condecimal_gt0_float:
  assumes "condecimal_gt0 x"
  shows "\<exists>r. float_of_decimal x = Fin r \<and> 0 \<le> r"
proof -
  from assms have x: "0 < x" "\<bar>x\<bar> < 10 ^ 18" by (auto simp: condecimal_gt0_def condecimal_def)
  have "(10::rat) ^ 18 < 2 ^ 1000" by simp
  with x have "\<bar>x\<bar> < 2 ^ 1000" by linarith
  then obtain r where r: "round_double x = Fin r" using round_double_finite by blast
  moreover have "dge (round_double x) (Fin 0)" using x by (intro round_double_nonneg) simp
  ultimately show ?thesis by (simp add: float_of_decimal_def)
qed

lemma condecimal_bounds:
  assumes "condecimal b"
  shows "\<bar>b\<bar> < 2 ^ 1000" and "b = 0 \<or> 1 / 2 ^ 1000 \<le> \<bar>b\<bar>"
proof -
  from assms have i: "of_int \<lfloor>100 * b\<rfloor> = 100 * b" and u: "\<bar>b\<bar> < 10 ^ 18"
    by (simp_all add: condecimal_def)
  have "(10::rat) ^ 18 < 2 ^ 1000" by simp
  with u show "\<bar>b\<bar> < 2 ^ 1000" by linarith
  show "b = 0 \<or> 1 / 2 ^ 1000 \<le> \<bar>b\<bar>"
  proof (cases "b = 0")
    case False
    define n where "n = \<lfloor>100 * b\<rfloor>"
    have nb: "of_int n = 100 * b" using i by (simp add: n_def)
    with False have "n \<noteq> 0" by auto
    then have "1 \<le> \<bar>n\<bar>" by simp
    then have "(1::rat) \<le> of_int \<bar>n\<bar>" by (simp only: of_int_1_le_iff)
    also have "\<dots> = 100 * \<bar>b\<bar>" using nb by (simp add: abs_mult flip: of_int_abs)
    finally have "1 / 100 \<le> \<bar>b\<bar>" by simp
    moreover have "(1::rat) / 2 ^ 1000 \<le> 1 / 100" by simp
    ultimately show ?thesis by linarith
  qed simp
qed

lemma float_of_decimal_error:
  assumes "condecimal b"
  shows "\<exists>r. float_of_decimal b = Fin r \<and> \<bar>r - b\<bar> \<le> \<bar>b\<bar> / 2 ^ 53"
  unfolding float_of_decimal_def
  using round_double_error [OF condecimal_bounds [OF assms]] .

lemma float_of_decimal_negative:
  assumes "condecimal b" and "b < 0"
  shows "\<exists>r. float_of_decimal b = Fin r \<and> r < 0"
proof -
  from float_of_decimal_error [OF assms(1)] obtain r where
    r: "float_of_decimal b = Fin r" and e: "\<bar>r - b\<bar> \<le> \<bar>b\<bar> / 2 ^ 53" by blast
  have "\<bar>b\<bar> / 2 ^ 53 < \<bar>b\<bar>" using assms(2) by simp
  with e have "r < 0" using assms(2) by linarith
  with r show ?thesis by blast
qed

section \<open>Rows, lookups and aggregates\<close>

lemma find_Some_set: "find P xs = Some x \<Longrightarrow> x \<in> set xs \<and> P x"
  by (induction xs) (auto split: if_splits)

lemma find_map_preserving:
  "(\<And>x. P (f x) = P x) \<Longrightarrow> find P (map f xs) = map_option f (find P xs)"
  by (induction xs) auto

lemma find_append_miss:
  "(\<And>x. x \<in> set xs \<Longrightarrow> \<not> P x) \<Longrightarrow> find P (xs @ ys) = find P ys"
  by (induction xs) auto

lemma distinct_map_eq:
  "distinct (map f xs) \<Longrightarrow> x \<in> set xs \<Longrightarrow> y \<in> set xs \<Longrightarrow> f x = f y \<Longrightarrow> x = y"
  by (meson distinct_map inj_on_eq_iff)

lemma set_update_balance:
  "r \<in> set (update_balance obj b rows) \<Longrightarrow> r \<in> set rows \<or> (\<exists>r0 \<in> set rows. r = r0\<lparr>balance := b\<rparr>)"
  by (auto simp: update_balance_def)

lemma update_balance_length [simp]: "length (update_balance obj b rows) = length rows"
  by (simp add: update_balance_def)

lemma update_balance_nth:
  "i < length rows \<Longrightarrow>
     update_balance obj b rows ! i =
       (if acc_id (rows ! i) = acc_id obj then (rows ! i)\<lparr> balance := b \<rparr> else rows ! i)"
  by (simp add: update_balance_def)

lemma find_update_balance:
  "find (\<lambda>a. account_id a = k) (update_balance obj b rows) =
     map_option (\<lambda>r. if acc_id r = acc_id obj then r\<lparr> balance := b \<rparr> else r)
       (find (\<lambda>a. account_id a = k) rows)"
  unfolding update_balance_def by (rule find_map_preserving) simp

lemma sql_sum_simps [simp]:
  "sql_sum agg [] = None" "sql_sum agg (x # xs) = Some (agg (x # xs))"
  by (simp_all add: sql_sum_def)

lemma sql_max_ge: "sql_max xs = Some m \<Longrightarrow> x \<in> set xs \<Longrightarrow> x \<le> m"
proof (cases xs)
  case Nil
  then show "sql_max xs = Some m \<Longrightarrow> x \<in> set xs \<Longrightarrow> x \<le> m" by simp
next
  case (Cons y ys)
  assume m: "sql_max xs = Some m" and x: "x \<in> set xs"
  from m Cons have "m = fold max ys y" by simp
  then have "m = Max (set (y # ys))" by (simp only: Max.set_eq_fold)
  then show "x \<le> m" using x Cons by simp
qed

lemma locks_held_Close [simp]: "locks_held (es @ [Close]) = []"
  by (simp add: locks_held_def)

section \<open>The outcomes of the two operations\<close>

lemmas transfer_unfold =
  transfer_def first_for_update_def rejected_def Let_def

lemma transfer_Inl: "result (transfer DAILY_LIMIT w d req) = Inl e \<Longrightarrow> store (transfer DAILY_LIMIT w d req) = d"
  by (auto simp: transfer_def first_for_update_def rejected_def Let_def split: option.splits if_splits)

lemma transfer_Inr:
  assumes "result (transfer DAILY_LIMIT w d req) = Inr r"
  shows "\<exists>s t. from_account req \<noteq> to_account req
      \<and> find (\<lambda>a. account_id a = from_account req) (accounts d) = Some s
      \<and> find (\<lambda>a. account_id a = to_account req) (accounts d) = Some t
      \<and> status s = ''ACTIVE'' \<and> status t = ''ACTIVE''
      \<and> \<not> dless (balance s) (float_of_decimal (amount req))
      \<and> \<not> dgreater (dadd (todays_transferred_sum w d (from_account req)) (float_of_decimal (amount req))) DAILY_LIMIT
      \<and> commit_error w = None
      \<and> r = \<lparr> resp_from_account = account_id s, resp_to_account = account_id t,
               resp_amount = float_of_decimal (amount req) \<rparr>
      \<and> accounts (store (transfer DAILY_LIMIT w d req)) =
            update_balance t (dadd (balance t) (float_of_decimal (amount req)))
              (update_balance s (dsub (balance s) (float_of_decimal (amount req))) (accounts d))
      \<and> transactions (store (transfer DAILY_LIMIT w d req)) =
            transactions d @ [\<lparr> tx_id = next_rowid (map tx_id (transactions d)),
                                 tx_from_account = from_account req,
                                 tx_to_account = to_account req,
                                 tx_amount = float_of_decimal (amount req),
                                 tx_created_at = utcnow w \<rparr>]
      \<and> events (transfer DAILY_LIMIT w d req) =
            [LockRow (from_account req), LockRow (to_account req), Commit, Close]"
  using assms
  by (auto simp: transfer_def first_for_update_def rejected_def Let_def split: option.splits if_splits)

lemma transfer_commit_error:
  "commit_error w = Some msg \<Longrightarrow>
     (\<exists>e. result (transfer DAILY_LIMIT w d req) = Inl e) \<and> store (transfer DAILY_LIMIT w d req) = d"
  by (auto simp: transfer_unfold split: option.splits if_splits)

lemma transfer_events_end_Close: "\<exists>es. events (transfer DAILY_LIMIT w d req) = es @ [Close]"
  by (auto simp: transfer_unfold split: option.splits)

lemma transfer_releases_locks: "locks_held (events (transfer DAILY_LIMIT w d req)) = []"
  using transfer_events_end_Close [of DAILY_LIMIT w d req] by auto

lemma transfer_limit_payload:
  "result (transfer DAILY_LIMIT w d req) = Inl (HTTPException c (DailyLimitExceeded l a b)) \<Longrightarrow>
     c = 400 \<and> l = DAILY_LIMIT \<and> a = todays_transferred_sum w d (from_account req)
     \<and> b = float_of_decimal (amount req)"
  by (auto simp: transfer_unfold split: option.splits if_splits)

lemma create_account_ok:
  assumes b: "initial_balance req = Some b"
    and uniq: "req_account_number req \<notin> set (map account_number (accounts d))"
    and commit: "commit_error w = None"
  shows "\<exists>resp d'. create_account w d req = (Inr resp, d')
           \<and> resp_balance resp = float_of_decimal b
           \<and> balance_of d' (resp_account_id resp) = Some (float_of_decimal b)"
proof -
  define k where "k = (case sql_max (map account_id (accounts d)) of None \<Rightarrow> 0 | Some m \<Rightarrow> m) + 1"
  have miss: "\<not> account_id x = k" if "x \<in> set (accounts d)" for x
  proof (cases "sql_max (map account_id (accounts d))")
    case None
    with that show ?thesis by (cases "accounts d") simp_all
  next
    case (Some m)
    from sql_max_ge [OF Some, of "account_id x"] that have "account_id x \<le> m" by simp
    then show ?thesis by (simp add: k_def Some)
  qed
  show ?thesis
    using b uniq commit find_append_miss [of "accounts d" "\<lambda>a. account_id a = k", OF miss]
    by (simp add: create_account_def Let_def balance_of_def flip: k_def)
qed

lemma create_account_Inr:
  assumes "create_account w d req = (Inr resp, d')"
  shows "\<exists>b. initial_balance req = Some b
           \<and> req_account_number req \<notin> set (map account_number (accounts d))
           \<and> commit_error w = None"
  using assms
  by (auto simp: create_account_def Let_def split: option.splits if_splits)

section \<open>The sample store\<close>

lemma sample_find [simp]:
  "find (\<lambda>a. account_id a = 1) (accounts sample_db) = Some (sample_account 1 (Fin 5000) ''ACTIVE'')"
  "find (\<lambda>a. account_id a = 2) (accounts sample_db) = Some (sample_account 2 (Fin 700) ''FROZEN'')"
  "find (\<lambda>a. account_id a = 3) (accounts sample_db) = Some (sample_account 3 (Fin 250) ''ACTIVE'')"
  "find (\<lambda>a. account_id a = 4) (accounts sample_db) = None"
  by (simp_all add: sample_db_def sample_account_def)

lemma float_of_100 [simp]: "float_of_decimal 100 = Fin 100"
  by (rule float_100)

lemma sample_numbers:
  "str_int 1 = ''1''" "str_int 2 = ''2''" "str_int 3 = ''3''" "str_int 104 = ''104''"
  by (simp_all add: str_int_def str_nat.simps)

lemma sample_transfer_1_3_ok:
  "result (transfer (Fin 200000) sample_world sample_db (sample_request 1 3 100))
     = Inr \<lparr> resp_from_account = 1, resp_to_account = 3, resp_amount = Fin 100 \<rparr>"
  by (simp add: transfer_unfold sample_request_def sample_account_def dgreater_def
      todays_transferred_sum_def coalesce_def round_double_100 sample_db_def sample_world_def)

lemma sample_create_negative:
  "create_account sample_world sample_db (sample_create (- 50))
     = (Inr \<lparr> resp_account_id = 4, resp_balance = Fin (- 50) \<rparr>,
        sample_db\<lparr> accounts := accounts sample_db @
          [\<lparr> acc_id = 4, account_id = 4, customer_id = 104, account_number = ''AC4'',
             account_type = Some ''SAVINGS'', balance = Fin (- 50), currency = Some ''INR'',
             status = ''ACTIVE'', created_at = 1728003600000000,
             customer_name = ''Customer 104'' \<rparr>] \<rparr>)"
  by (simp add: create_account_def sample_create_def sample_db_def sample_account_def
      sample_world_def next_rowid_def sample_numbers float_of_decimal_def round_double_eval)

section \<open>The daily limit when the row is stamped within the local day\<close>

text \<open>
  What \<^verbatim>\<open>transfer\<close> does at the boundary of a limit of 1000 when the row of the first
  transfer is stamped within the local day that the next call sums over, and the
  engine's \<^verbatim>\<open>SUM\<close> of one row is that row.
\<close>

lemma todays_sum_after_first:
  assumes none: "filter (sent_today w k) (transactions d) = []"
    and day: "today w' = today w"
    and stamp: "sent_today w k tx"
    and amt: "tx_amount tx = Fin 1000"
    and one: "sum_floats w' [Fin 1000] = Fin 1000"
  shows "todays_transferred_sum w' (d\<lparr> accounts := rows, transactions := transactions d @ [tx] \<rparr>) k
           = Fin 1000"
proof -
  have same: "sent_today w' k = sent_today w k"
    by (rule ext) (simp add: sent_today_def day)
  show ?thesis
    using none stamp amt one
    by (simp add: todays_transferred_sum_def same coalesce_def)
qed

lemma boundary_1001:
  assumes "f \<noteq> g"
    and "find (\<lambda>a. account_id a = f) (accounts d) = Some s"
    and "find (\<lambda>a. account_id a = g) (accounts d) = Some t"
    and "status s = ''ACTIVE''" and "status t = ''ACTIVE''"
    and "dge (balance s) (Fin 1001)"
    and "todays_transferred_sum w d f = Fin 0"
  shows "result (transfer (Fin 1000) w d \<lparr> from_account = f, to_account = g, amount = 1001 \<rparr>)
           = Inl (HTTPException 400 (DailyLimitExceeded (Fin 1000) (Fin 0) (Fin 1001)))"
  using assms dge_1001_funds(1) [of "balance s"]
  by (simp add: transfer_unfold float_of_decimal_def rounding_samples dgreater_def)

lemma boundary_1000:
  assumes "f \<noteq> g"
    and "find (\<lambda>a. account_id a = f) (accounts d) = Some s"
    and "find (\<lambda>a. account_id a = g) (accounts d) = Some t"
    and "status s = ''ACTIVE''" and "status t = ''ACTIVE''"
    and "dge (balance s) (Fin 1001)"
    and "todays_transferred_sum w d f = Fin 0"
    and "commit_error w = None"
  shows "transfer (Fin 1000) w d \<lparr> from_account = f, to_account = g, amount = 1000 \<rparr>
           = \<lparr> result = Inr \<lparr> resp_from_account = f, resp_to_account = g, resp_amount = Fin 1000 \<rparr>,
               store = d\<lparr> accounts := update_balance t (dadd (balance t) (Fin 1000))
                                        (update_balance s (dsub (balance s) (Fin 1000)) (accounts d)),
                          transactions := transactions d @
                            [\<lparr> tx_id = next_rowid (map tx_id (transactions d)), tx_from_account = f,
                               tx_to_account = g, tx_amount = Fin 1000, tx_created_at = utcnow w \<rparr>] \<rparr>,
               events = [LockRow f, LockRow g, Commit, Close] \<rparr>"
  using assms dge_1001_funds(2) [of "balance s"]
  by (auto simp: transfer_unfold float_of_decimal_def rounding_samples dgreater_def
      dest: find_Some_set)

lemma boundary_then_1:
  assumes ne: "f \<noteq> g"
    and pk: "distinct (map acc_id (accounts d))"
    and s: "find (\<lambda>a. account_id a = f) (accounts d) = Some s"
    and t: "find (\<lambda>a. account_id a = g) (accounts d) = Some t"
    and act: "status s = ''ACTIVE''" "status t = ''ACTIVE''"
    and funds: "dge (balance s) (Fin 1001)"
    and none: "filter (sent_today w f) (transactions d) = []"
    and one: "sum_floats w' [Fin 1000] = Fin 1000"
    and commit: "commit_error w = None"
    and day: "today w' = today w"
    and stamp: "combine_min (today w) \<le> utcnow w" "utcnow w \<le> combine_max (today w)"
  shows "result (transfer (Fin 1000) w'
                  (store (transfer (Fin 1000) w d \<lparr> from_account = f, to_account = g, amount = 1000 \<rparr>))
                  \<lparr> from_account = f, to_account = g, amount = 1 \<rparr>)
           = Inl (HTTPException 400 (DailyLimitExceeded (Fin 1000) (Fin 1000) (Fin 1)))"
proof -
  have zero: "todays_transferred_sum w d f = Fin 0"
    by (simp add: todays_transferred_sum_def none coalesce_def)
  from s t have sin: "s \<in> set (accounts d)" "account_id s = f"
    and tin: "t \<in> set (accounts d)" "account_id t = g"
    by (auto dest: find_Some_set)
  have pks: "acc_id s \<noteq> acc_id t"
    using distinct_map_eq [OF pk sin(1) tin(1)] sin(2) tin(2) ne by auto
  define tx where "tx = \<lparr> tx_id = next_rowid (map tx_id (transactions d)), tx_from_account = f,
                           tx_to_account = g, tx_amount = Fin 1000, tx_created_at = utcnow w \<rparr>"
  define rows where "rows = update_balance t (dadd (balance t) (Fin 1000))
                             (update_balance s (dsub (balance s) (Fin 1000)) (accounts d))"
  have st: "store (transfer (Fin 1000) w d \<lparr> from_account = f, to_account = g, amount = 1000 \<rparr>)
              = d\<lparr> accounts := rows, transactions := transactions d @ [tx] \<rparr>"
    unfolding boundary_1000 [OF ne s t act funds zero commit] rows_def tx_def by simp
  have s': "find (\<lambda>a. account_id a = f) rows = Some (s\<lparr> balance := dsub (balance s) (Fin 1000) \<rparr>)"
    unfolding rows_def using s pks by (simp add: find_update_balance)
  have t': "find (\<lambda>a. account_id a = g) rows = Some (t\<lparr> balance := dadd (balance t) (Fin 1000) \<rparr>)"
    unfolding rows_def using t pks by (simp add: find_update_balance)
  have "sent_today w f tx" using stamp by (simp add: sent_today_def tx_def)
  from todays_sum_after_first [OF none day this _ one, of rows]
  have sum: "todays_transferred_sum w' (d\<lparr> accounts := rows, transactions := transactions d @ [tx] \<rparr>) f
               = Fin 1000"
    by (simp add: tx_def)
  show ?thesis
    unfolding st using ne s' t' act sum dge_1001_funds(3) [OF funds]
    by (simp add: transfer_unfold float_of_decimal_def rounding_samples dgreater_def)
qed

section \<open>Two transfers on the sample store\<close>

lemma window_20001:
  "combine_min 20001 = 1728086400000000" "combine_max 20001 = 1728172799999999"
  by (simp_all add: combine_min_def combine_max_def)

lemma ahead_first:
  "transfer (Fin 1000) (ahead_world agg) sample_db (sample_request 1 3 1000)
     = \<lparr> result = Inr \<lparr> resp_from_account = 1, resp_to_account = 3, resp_amount = Fin 1000 \<rparr>,
         store = \<lparr> accounts = [sample_account 1 (Fin 4000) ''ACTIVE'',
                                sample_account 2 (Fin 700) ''FROZEN'',
                                sample_account 3 (Fin 1250) ''ACTIVE''],
                   transactions = [\<lparr> tx_id = 1, tx_from_account = 1, tx_to_account = 3,
                                     tx_amount = Fin 1000, tx_created_at = 1728043200000000 \<rparr>] \<rparr>,
         events = [LockRow 1, LockRow 3, Commit, Close] \<rparr>"
  by (simp add: transfer_def first_for_update_def rejected_def sample_request_def
      sample_account_def sample_db_def ahead_world_def dgreater_def dsub_def
      todays_transferred_sum_def coalesce_def update_balance_def next_rowid_def
      float_of_decimal_def round_double_eval)

lemma aligned_first:
  "transfer (Fin 1000) sample_world sample_db (sample_request 1 3 1000)
     = \<lparr> result = Inr \<lparr> resp_from_account = 1, resp_to_account = 3, resp_amount = Fin 1000 \<rparr>,
         store = \<lparr> accounts = [sample_account 1 (Fin 4000) ''ACTIVE'',
                                sample_account 2 (Fin 700) ''FROZEN'',
                                sample_account 3 (Fin 1250) ''ACTIVE''],
                   transactions = [\<lparr> tx_id = 1, tx_from_account = 1, tx_to_account = 3,
                                     tx_amount = Fin 1000, tx_created_at = 1728003600000000 \<rparr>] \<rparr>,
         events = [LockRow 1, LockRow 3, Commit, Close] \<rparr>"
  by (simp add: transfer_def first_for_update_def rejected_def sample_request_def
      sample_account_def sample_db_def sample_world_def dgreater_def dsub_def
      todays_transferred_sum_def coalesce_def update_balance_def next_rowid_def
      float_of_decimal_def round_double_eval)

section \<open>Non-negative balances (C1)\<close>

text \<open>
  C1. Non-negativity of balances is preserved by \<^verbatim>\<open>transfer\<close>, whether the call
  succeeds or is rejected, for every validated amount (\<^verbatim>\<open>condecimal(gt=0, ...)\<close>). If
  every stored balance is \<open>\<ge> 0\<close> before the call, every stored balance is \<open>\<ge> 0\<close>
  after it; and, the primary key being unique, each single row whose balance is \<open>\<ge> 0\<close>
  before the call has a balance \<open>\<ge> 0\<close> after it, so this holds of any pair of
  accounts whatever the other rows hold. The source is debited only when
  \<^verbatim>\<open>src.balance < amt\<close> is false, the destination is only credited, and binary64
  rounding keeps the sign.
\<close>

theorem transfer_preserves_nonnegative:
  assumes amt: "condecimal_gt0 (amount req)"
  shows "((\<forall>a \<in> set (accounts d). dge (balance a) (Fin 0)) \<longrightarrow>
          (\<forall>a \<in> set (accounts (store (transfer DAILY_LIMIT w d req))). dge (balance a) (Fin 0)))
     \<and> (distinct (map acc_id (accounts d)) \<longrightarrow>
          length (accounts (store (transfer DAILY_LIMIT w d req))) = length (accounts d)
          \<and> (\<forall>i < length (accounts d).
                dge (balance (accounts d ! i)) (Fin 0) \<longrightarrow>
                dge (balance (accounts (store (transfer DAILY_LIMIT w d req)) ! i)) (Fin 0)))"
proof (cases "result (transfer DAILY_LIMIT w d req)")
  case (Inl e)
  then show ?thesis by (simp add: transfer_Inl)
next
  case (Inr r)
  from condecimal_gt0_float [OF amt] obtain x where x: "float_of_decimal (amount req) = Fin x" "0 \<le> x"
    by blast
  from transfer_Inr [OF Inr] obtain s t where
    s: "find (\<lambda>a. account_id a = from_account req) (accounts d) = Some s" and
    t: "find (\<lambda>a. account_id a = to_account req) (accounts d) = Some t" and
    funds: "\<not> dless (balance s) (float_of_decimal (amount req))" and
    acc: "accounts (store (transfer DAILY_LIMIT w d req)) =
            update_balance t (dadd (balance t) (float_of_decimal (amount req)))
              (update_balance s (dsub (balance s) (float_of_decimal (amount req))) (accounts d))"
    by blast
  from s t have sin: "s \<in> set (accounts d)" and tin: "t \<in> set (accounts d)"
    by (auto dest: find_Some_set)
  have debit: "dge (balance s) (Fin 0) \<Longrightarrow> dge (dsub (balance s) (Fin x)) (Fin 0)"
    using funds x by (auto intro: dsub_nonneg)
  have credit: "dge (balance t) (Fin 0) \<Longrightarrow> dge (dadd (balance t) (Fin x)) (Fin 0)"
    using x by (auto intro: dadd_nonneg)
  have all: "\<forall>a \<in> set (accounts (store (transfer DAILY_LIMIT w d req))). dge (balance a) (Fin 0)"
    if inv: "\<forall>a \<in> set (accounts d). dge (balance a) (Fin 0)"
    unfolding acc x using inv debit credit sin tin
    by (auto dest!: set_update_balance)
  have row: "dge (balance (accounts (store (transfer DAILY_LIMIT w d req)) ! i)) (Fin 0)"
    if pk: "distinct (map acc_id (accounts d))" and i: "i < length (accounts d)"
      and nn: "dge (balance (accounts d ! i)) (Fin 0)" for i
  proof -
    have m: "accounts d ! i \<in> set (accounts d)" using i by simp
    have "acc_id (accounts d ! i) = acc_id s \<Longrightarrow> accounts d ! i = s"
      and "acc_id (accounts d ! i) = acc_id t \<Longrightarrow> accounts d ! i = t"
      using distinct_map_eq [OF pk m sin] distinct_map_eq [OF pk m tin] by auto
    then show ?thesis
      unfolding acc x using i nn debit credit
      by (auto simp: update_balance_nth)
  qed
  show ?thesis using all row by (simp add: acc)
qed

theorem transfer_preserves_nonnegative_witness:
  "condecimal_gt0 (amount (sample_request 1 3 100))
   \<and> list_all (\<lambda>a. dge (balance a) (Fin 0)) (accounts sample_db)
   \<and> distinct (map acc_id (accounts sample_db))
   \<and> list_all (\<lambda>a. dge (balance a) (Fin 0))
        (accounts (store (transfer (Fin 200000) sample_world sample_db (sample_request 1 3 100))))
   \<and> dge (balance (accounts (store (transfer (Fin 200000) sample_world sample_db
              (sample_request 1 3 100))) ! 0)) (Fin 0)
   \<and> dge (balance (accounts (store (transfer (Fin 200000) sample_world sample_db
              (sample_request 1 3 100))) ! 2)) (Fin 0)"
proof -
  have a: "condecimal_gt0 (amount (sample_request 1 3 100))"
    by (simp add: sample_request_def condecimal_gt0_def condecimal_def)
  have b: "\<forall>a \<in> set (accounts sample_db). dge (balance a) (Fin 0)"
    by (simp add: sample_db_def sample_account_def)
  have pk: "distinct (map acc_id (accounts sample_db))"
    by (simp add: sample_db_def sample_account_def)
  have i: "(0::nat) < length (accounts sample_db)" "(2::nat) < length (accounts sample_db)"
    "dge (balance (accounts sample_db ! 0)) (Fin 0)" "dge (balance (accounts sample_db ! 2)) (Fin 0)"
    by (simp_all add: sample_db_def sample_account_def)
  from transfer_preserves_nonnegative [OF a, of sample_db "Fin 200000" sample_world] a b pk i
  show ?thesis by (simp add: list_all_iff)
qed

section \<open>The daily limit (C2)\<close>

text \<open>
  C2 fails on the code. With \<^verbatim>\<open>DAILY_LIMIT = 1000\<close> and nothing sent today, a transfer
  of 1001 is rejected with the daily-limit error and a transfer of 1000 succeeds, as the
  claim says. The following transfer of 1 is rejected only if the row of the first
  transfer lies in the window that the second call sums over. The row is stamped with
  \<^verbatim>\<open>datetime.utcnow()\<close>, but the window is the local day of \<^verbatim>\<open>date.today()\<close>, although
  the comment of \<^verbatim>\<open>todays_transferred_sum\<close> says UTC. In a process fourteen hours ahead
  of UTC, at 12:00:00 UTC, the row of the first transfer lies before the local midnight
  that opens the window: the sum of the day is 0 whatever the engine's \<^verbatim>\<open>SUM\<close>, and one
  second later, on the same local day and the same UTC day, the transfer of 1 succeeds, so
  1001 is sent within one day against a limit of 1000. In a process whose local day is
  the UTC day the same transfer of 1 is rejected with the daily-limit error. The bounds
  of the window are inclusive and the window is keyed by the sender.
\<close>

theorem daily_limit_missed_ahead_of_utc:
  "(\<forall>agg.
      result (transfer (Fin 1000) (ahead_world agg) sample_db (sample_request 1 3 1001))
        = Inl (HTTPException 400 (DailyLimitExceeded (Fin 1000) (Fin 0) (Fin 1001)))
    \<and> result (transfer (Fin 1000) (ahead_world agg) sample_db (sample_request 1 3 1000))
        = Inr \<lparr> resp_from_account = 1, resp_to_account = 3, resp_amount = Fin 1000 \<rparr>
    \<and> transactions (store (transfer (Fin 1000) (ahead_world agg) sample_db (sample_request 1 3 1000)))
        = [\<lparr> tx_id = 1, tx_from_account = 1, tx_to_account = 3, tx_amount = Fin 1000,
             tx_created_at = 1728043200000000 \<rparr>]
    \<and> today (ahead_world_later agg) = today (ahead_world agg)
    \<and> utcnow (ahead_world agg) div 86400000000 = utcnow (ahead_world_later agg) div 86400000000
    \<and> combine_min (today (ahead_world_later agg)) = 1728086400000000
    \<and> todays_transferred_sum (ahead_world_later agg)
          (store (transfer (Fin 1000) (ahead_world agg) sample_db (sample_request 1 3 1000))) 1
        = Fin 0
    \<and> result (transfer (Fin 1000) (ahead_world_later agg)
                 (store (transfer (Fin 1000) (ahead_world agg) sample_db (sample_request 1 3 1000)))
                 (sample_request 1 3 1))
        = Inr \<lparr> resp_from_account = 1, resp_to_account = 3, resp_amount = Fin 1 \<rparr>)
   \<and> result (transfer (Fin 1000) sample_world
                (store (transfer (Fin 1000) sample_world sample_db (sample_request 1 3 1000)))
                (sample_request 1 3 1))
        = Inl (HTTPException 400 (DailyLimitExceeded (Fin 1000) (Fin 1000) (Fin 1)))
   \<and> sent_today (ahead_world_later plain_sum) 1
         \<lparr> tx_id = 1, tx_from_account = 1, tx_to_account = 3, tx_amount = Fin 1000,
           tx_created_at = 1728086400000000 \<rparr>
   \<and> sent_today (ahead_world_later plain_sum) 1
         \<lparr> tx_id = 1, tx_from_account = 1, tx_to_account = 3, tx_amount = Fin 1000,
           tx_created_at = 1728172799999999 \<rparr>
   \<and> \<not> sent_today (ahead_world_later plain_sum) 1
         \<lparr> tx_id = 1, tx_from_account = 1, tx_to_account = 3, tx_amount = Fin 1000,
           tx_created_at = 1728086399999999 \<rparr>
   \<and> \<not> sent_today (ahead_world_later plain_sum) 1
         \<lparr> tx_id = 1, tx_from_account = 1, tx_to_account = 3, tx_amount = Fin 1000,
           tx_created_at = 1728172800000000 \<rparr>
   \<and> \<not> sent_today (ahead_world_later plain_sum) 3
         \<lparr> tx_id = 1, tx_from_account = 1, tx_to_account = 3, tx_amount = Fin 1000,
           tx_created_at = 1728086400000000 \<rparr>"
proof (intro conjI allI)
  fix agg
  have st: "store (transfer (Fin 1000) (ahead_world agg) sample_db (sample_request 1 3 1000))
      = \<lparr> accounts = [sample_account 1 (Fin 4000) ''ACTIVE'',
                          sample_account 2 (Fin 700) ''FROZEN'',
                          sample_account 3 (Fin 1250) ''ACTIVE''],
             transactions = [\<lparr> tx_id = 1, tx_from_account = 1, tx_to_account = 3,
                               tx_amount = Fin 1000, tx_created_at = 1728043200000000 \<rparr>] \<rparr>"
    by (simp add: ahead_first)
  show "result (transfer (Fin 1000) (ahead_world agg) sample_db (sample_request 1 3 1001))
        = Inl (HTTPException 400 (DailyLimitExceeded (Fin 1000) (Fin 0) (Fin 1001)))"
    by (simp add: transfer_def first_for_update_def rejected_def sample_request_def
        sample_account_def sample_db_def dgreater_def todays_transferred_sum_def coalesce_def
        float_of_decimal_def round_double_eval)
  show "result (transfer (Fin 1000) (ahead_world agg) sample_db (sample_request 1 3 1000))
        = Inr \<lparr> resp_from_account = 1, resp_to_account = 3, resp_amount = Fin 1000 \<rparr>"
    by (simp add: ahead_first)
  show "transactions (store (transfer (Fin 1000) (ahead_world agg) sample_db (sample_request 1 3 1000)))
        = [\<lparr> tx_id = 1, tx_from_account = 1, tx_to_account = 3, tx_amount = Fin 1000,
             tx_created_at = 1728043200000000 \<rparr>]"
    by (simp add: ahead_first)
  show "today (ahead_world_later agg) = today (ahead_world agg)"
    by (simp add: ahead_world_def ahead_world_later_def)
  show "utcnow (ahead_world agg) div 86400000000 = utcnow (ahead_world_later agg) div 86400000000"
    by (simp add: ahead_world_def ahead_world_later_def)
  show "combine_min (today (ahead_world_later agg)) = 1728086400000000"
    by (simp add: ahead_world_later_def combine_min_def)
  show "todays_transferred_sum (ahead_world_later agg)
          (store (transfer (Fin 1000) (ahead_world agg) sample_db (sample_request 1 3 1000))) 1
        = Fin 0"
    unfolding st
    by (simp add: todays_transferred_sum_def sent_today_def ahead_world_later_def
        window_20001 coalesce_def)
  show "result (transfer (Fin 1000) (ahead_world_later agg)
                 (store (transfer (Fin 1000) (ahead_world agg) sample_db (sample_request 1 3 1000)))
                 (sample_request 1 3 1))
        = Inr \<lparr> resp_from_account = 1, resp_to_account = 3, resp_amount = Fin 1 \<rparr>"
    unfolding st
    by (simp add: transfer_def first_for_update_def rejected_def sample_request_def
        sample_account_def dgreater_def todays_transferred_sum_def sent_today_def
        ahead_world_later_def window_20001 coalesce_def float_of_decimal_def round_double_eval)
next
  have st: "store (transfer (Fin 1000) sample_world sample_db (sample_request 1 3 1000))
      = \<lparr> accounts = [sample_account 1 (Fin 4000) ''ACTIVE'',
                          sample_account 2 (Fin 700) ''FROZEN'',
                          sample_account 3 (Fin 1250) ''ACTIVE''],
             transactions = [\<lparr> tx_id = 1, tx_from_account = 1, tx_to_account = 3,
                               tx_amount = Fin 1000, tx_created_at = 1728003600000000 \<rparr>] \<rparr>"
    by (simp add: aligned_first)
  show "result (transfer (Fin 1000) sample_world
                (store (transfer (Fin 1000) sample_world sample_db (sample_request 1 3 1000)))
                (sample_request 1 3 1))
        = Inl (HTTPException 400 (DailyLimitExceeded (Fin 1000) (Fin 1000) (Fin 1)))"
    unfolding st
    by (simp add: transfer_def first_for_update_def rejected_def sample_request_def
        sample_account_def dgreater_def todays_transferred_sum_def sent_today_def
        sample_world_def combine_min_def combine_max_def coalesce_def float_of_decimal_def
        round_double_eval)
qed (simp_all add: sent_today_def ahead_world_later_def window_20001)

section \<open>Conservation (C3)\<close>

text \<open>
  C3, as the code has it. After a successful \<^verbatim>\<open>transfer\<close> the source balance is the
  binary64 difference \<^verbatim>\<open>src.balance - amt\<close> and the destination balance is the binary64
  sum \<^verbatim>\<open>dst.balance + amt\<close>. When neither operation rounds (the exact difference and
  the exact sum are binary64 values, as for whole amounts below \<open>2 ^ 53\<close>), the sum of
  the two balances after the call equals their sum before it.
\<close>

theorem transfer_conserves_when_exact:
  assumes pk: "distinct (map acc_id (accounts d))"
    and ok: "result (transfer DAILY_LIMIT w d req) = Inr r"
    and s: "balance_of d (from_account req) = Some (Fin a)"
    and t: "balance_of d (to_account req) = Some (Fin b)"
    and x: "float_of_decimal (amount req) = Fin x"
  shows "balance_of (store (transfer DAILY_LIMIT w d req)) (from_account req)
           = Some (dsub (Fin a) (Fin x))
     \<and> balance_of (store (transfer DAILY_LIMIT w d req)) (to_account req)
           = Some (dadd (Fin b) (Fin x))
     \<and> (round_double (a - x) = Fin (a - x) \<and> round_double (b + x) = Fin (b + x) \<longrightarrow>
         (\<exists>a' b'. balance_of (store (transfer DAILY_LIMIT w d req)) (from_account req) = Some (Fin a')
                \<and> balance_of (store (transfer DAILY_LIMIT w d req)) (to_account req) = Some (Fin b')
                \<and> a' + b' = a + b))"
proof -
  from transfer_Inr [OF ok] obtain s0 t0 where
    ne: "from_account req \<noteq> to_account req" and
    s0: "find (\<lambda>a. account_id a = from_account req) (accounts d) = Some s0" and
    t0: "find (\<lambda>a. account_id a = to_account req) (accounts d) = Some t0" and
    acc: "accounts (store (transfer DAILY_LIMIT w d req)) =
            update_balance t0 (dadd (balance t0) (float_of_decimal (amount req)))
              (update_balance s0 (dsub (balance s0) (float_of_decimal (amount req))) (accounts d))"
    by blast
  from s0 t0 have sin: "s0 \<in> set (accounts d)" "account_id s0 = from_account req"
    and tin: "t0 \<in> set (accounts d)" "account_id t0 = to_account req"
    by (auto dest: find_Some_set)
  have pks: "acc_id s0 \<noteq> acc_id t0"
    using distinct_map_eq [OF pk sin(1) tin(1)] sin(2) tin(2) ne by auto
  from s s0 have bs: "balance s0 = Fin a" by (simp add: balance_of_def)
  from t t0 have bt: "balance t0 = Fin b" by (simp add: balance_of_def)
  have src: "balance_of (store (transfer DAILY_LIMIT w d req)) (from_account req)
           = Some (dsub (Fin a) (Fin x))"
    using s0 pks by (simp add: balance_of_def acc find_update_balance bs x)
  have dst: "balance_of (store (transfer DAILY_LIMIT w d req)) (to_account req)
           = Some (dadd (Fin b) (Fin x))"
    using t0 pks by (simp add: balance_of_def acc find_update_balance bt x)
  show ?thesis unfolding src dst by (simp add: dsub_def)
qed

theorem transfer_conserves_when_exact_witness:
  "distinct (map acc_id (accounts sample_db))
   \<and> result (transfer (Fin 200000) sample_world sample_db (sample_request 1 3 100))
       = Inr \<lparr> resp_from_account = 1, resp_to_account = 3, resp_amount = Fin 100 \<rparr>
   \<and> balance_of sample_db 1 = Some (Fin 5000) \<and> balance_of sample_db 3 = Some (Fin 250)
   \<and> float_of_decimal 100 = Fin 100
   \<and> round_double (5000 - 100) = Fin (5000 - 100) \<and> round_double (250 + 100) = Fin (250 + 100)
   \<and> balance_of (store (transfer (Fin 200000) sample_world sample_db (sample_request 1 3 100))) 1
       = Some (Fin 4900)
   \<and> balance_of (store (transfer (Fin 200000) sample_world sample_db (sample_request 1 3 100))) 3
       = Some (Fin 350)"
proof -
  have pk: "distinct (map acc_id (accounts sample_db))"
    by (simp add: sample_db_def sample_account_def)
  note ok = sample_transfer_1_3_ok
  have s: "balance_of sample_db (from_account (sample_request 1 3 100)) = Some (Fin 5000)"
   and t: "balance_of sample_db (to_account (sample_request 1 3 100)) = Some (Fin 250)"
    by (simp_all add: balance_of_def sample_request_def sample_account_def)
  have x: "float_of_decimal (amount (sample_request 1 3 100)) = Fin 100"
    by (simp add: sample_request_def)
  have e: "round_double (5000 - 100) = Fin (5000 - 100)" "round_double (250 + 100) = Fin (250 + 100)"
    using round_double_of_int [of 4900] round_double_of_int [of 350] by simp_all
  from transfer_conserves_when_exact [OF pk ok s t x] e
  have "balance_of (store (transfer (Fin 200000) sample_world sample_db (sample_request 1 3 100))) 1
       = Some (Fin 4900)
     \<and> balance_of (store (transfer (Fin 200000) sample_world sample_db (sample_request 1 3 100))) 3
       = Some (Fin 350)"
    by (simp add: sample_request_def dsub_def)
  with pk ok s t x e show ?thesis by (simp add: sample_request_def)
qed

text \<open>
  C3, as the claim states it, fails: with balances 0.02 and 0.04 a transfer of 0.01
  succeeds, the debit is exact and the credit rounds up, so the two balances afterwards
  add up to \<open>2 ^ -59\<close> more than before; the sums differ as exact numbers and as
  Python floats (\<^verbatim>\<open>0.060000000000000005\<close> against \<^verbatim>\<open>0.06\<close>).
\<close>

theorem conservation_counterexample:
  "result (transfer (Fin 200000) sample_world cents_db (sample_request 1 3 (1 / 100)))
     = Inr \<lparr> resp_from_account = 1, resp_to_account = 3,
             resp_amount = Fin (5764607523034235 / 576460752303423488) \<rparr>
   \<and> balance_of cents_db 1 = Some (Fin (5764607523034235 / 288230376151711744))
   \<and> balance_of cents_db 3 = Some (Fin (5764607523034235 / 144115188075855872))
   \<and> balance_of (store (transfer (Fin 200000) sample_world cents_db (sample_request 1 3 (1 / 100)))) 1
       = Some (Fin (5764607523034235 / 576460752303423488))
   \<and> balance_of (store (transfer (Fin 200000) sample_world cents_db (sample_request 1 3 (1 / 100)))) 3
       = Some (Fin (3602879701896397 / 72057594037927936))
   \<and> (5764607523034235 / 576460752303423488 + 3602879701896397 / 72057594037927936 :: rat)
       \<noteq> 5764607523034235 / 288230376151711744 + 5764607523034235 / 144115188075855872
   \<and> dadd (Fin (5764607523034235 / 576460752303423488)) (Fin (3602879701896397 / 72057594037927936))
       \<noteq> dadd (Fin (5764607523034235 / 288230376151711744)) (Fin (5764607523034235 / 144115188075855872))"
proof -
  have tr: "transfer (Fin 200000) sample_world cents_db (sample_request 1 3 (1 / 100))
    = \<lparr> result = Inr \<lparr> resp_from_account = 1, resp_to_account = 3,
             resp_amount = Fin (5764607523034235 / 576460752303423488) \<rparr>,
        store = \<lparr> accounts = [sample_account 1 (Fin (5764607523034235 / 576460752303423488)) ''ACTIVE'',
                    sample_account 3 (Fin (3602879701896397 / 72057594037927936)) ''ACTIVE''],
                  transactions = [\<lparr> tx_id = 1, tx_from_account = 1, tx_to_account = 3,
                     tx_amount = Fin (5764607523034235 / 576460752303423488),
                     tx_created_at = 1728003600000000 \<rparr>] \<rparr>,
        events = [LockRow 1, LockRow 3, Commit, Close] \<rparr>"
    by (simp add: transfer_def first_for_update_def rejected_def cents_db_def sample_request_def
        sample_account_def cents_values dsub_def dgreater_def todays_transferred_sum_def
        coalesce_def sample_world_def update_balance_def next_rowid_def round_double_eval)
  show ?thesis
    unfolding tr
    by (simp add: balance_of_def cents_db_def sample_account_def cents_values round_double_eval)
qed

section \<open>Atomicity on failure (C4)\<close>

text \<open>
  C4. Atomicity on failure: every call to \<^verbatim>\<open>transfer\<close> that ends in an error leaves
  the stored accounts and the transaction log as they were before the call. Every
  precondition failure is raised before anything is assigned; a commit that fails is
  rolled back and surfaces as an error with the store unchanged; and a call that
  succeeds applies the debit, the credit and the new log row together, so the move is
  never applied to one side only.
\<close>

theorem transfer_failure_is_atomic:
  "(\<forall>e. result (transfer DAILY_LIMIT w d req) = Inl e \<longrightarrow> store (transfer DAILY_LIMIT w d req) = d)
   \<and> (\<forall>msg. commit_error w = Some msg \<longrightarrow>
         (\<exists>e. result (transfer DAILY_LIMIT w d req) = Inl e) \<and> store (transfer DAILY_LIMIT w d req) = d)
   \<and> (\<forall>r. result (transfer DAILY_LIMIT w d req) = Inr r \<longrightarrow>
         (\<exists>s t. find (\<lambda>a. account_id a = from_account req) (accounts d) = Some s
              \<and> find (\<lambda>a. account_id a = to_account req) (accounts d) = Some t
              \<and> accounts (store (transfer DAILY_LIMIT w d req)) =
                   update_balance t (dadd (balance t) (float_of_decimal (amount req)))
                     (update_balance s (dsub (balance s) (float_of_decimal (amount req))) (accounts d))
              \<and> length (transactions (store (transfer DAILY_LIMIT w d req))) = Suc (length (transactions d))))"
proof (intro conjI allI impI)
  fix e assume "result (transfer DAILY_LIMIT w d req) = Inl e"
  then show "store (transfer DAILY_LIMIT w d req) = d" by (rule transfer_Inl)
next
  fix msg assume c: "commit_error w = Some msg"
  from transfer_commit_error [OF c]
  show "\<exists>e. result (transfer DAILY_LIMIT w d req) = Inl e" by blast
  from transfer_commit_error [OF c]
  show "store (transfer DAILY_LIMIT w d req) = d" by blast
next
  fix r assume "result (transfer DAILY_LIMIT w d req) = Inr r"
  from transfer_Inr [OF this] show "\<exists>s t. find (\<lambda>a. account_id a = from_account req) (accounts d) = Some s
              \<and> find (\<lambda>a. account_id a = to_account req) (accounts d) = Some t
              \<and> accounts (store (transfer DAILY_LIMIT w d req)) =
                   update_balance t (dadd (balance t) (float_of_decimal (amount req)))
                     (update_balance s (dsub (balance s) (float_of_decimal (amount req))) (accounts d))
              \<and> length (transactions (store (transfer DAILY_LIMIT w d req))) = Suc (length (transactions d))"
    by force
qed

theorem transfer_failure_is_atomic_witness:
  "result (transfer (Fin 200000) sample_world sample_db (sample_request 1 3 6000))
     = Inl (HTTPException 400 InsufficientFunds)
   \<and> store (transfer (Fin 200000) sample_world sample_db (sample_request 1 3 6000)) = sample_db
   \<and> commit_error (sample_world\<lparr>commit_error := Some ''disk I/O error''\<rparr>) = Some ''disk I/O error''
   \<and> store (transfer (Fin 200000) (sample_world\<lparr>commit_error := Some ''disk I/O error''\<rparr>)
              sample_db (sample_request 1 3 100)) = sample_db"
proof -
  have r: "result (transfer (Fin 200000) sample_world sample_db (sample_request 1 3 6000))
     = Inl (HTTPException 400 InsufficientFunds)"
    by (simp add: transfer_unfold sample_request_def float_6000 sample_account_def)
  have c: "commit_error (sample_world\<lparr>commit_error := Some ''disk I/O error''\<rparr>) = Some ''disk I/O error''"
    by simp
  from transfer_failure_is_atomic [of "Fin 200000" sample_world sample_db "sample_request 1 3 6000"] r
  have "store (transfer (Fin 200000) sample_world sample_db (sample_request 1 3 6000)) = sample_db"
    by blast
  moreover
  from transfer_failure_is_atomic [of "Fin 200000" "sample_world\<lparr>commit_error := Some ''disk I/O error''\<rparr>"
      sample_db "sample_request 1 3 100"] c
  have "store (transfer (Fin 200000) (sample_world\<lparr>commit_error := Some ''disk I/O error''\<rparr>)
              sample_db (sample_request 1 3 100)) = sample_db"
    by blast
  ultimately show ?thesis using r c by blast
qed

section \<open>Lock order (C5)\<close>

text \<open>
  C5, as the code has it. \<^verbatim>\<open>transfer\<close> locks the source row first and the destination
  row second: the order of the two locks is the direction of the transfer, and the
  opposite transfer between the same two accounts locks them in the opposite order.
\<close>

theorem lock_order_follows_direction:
  assumes "from_account req \<noteq> to_account req"
    and "find (\<lambda>a. account_id a = from_account req) (accounts d) = Some s"
    and "find (\<lambda>a. account_id a = to_account req) (accounts d) = Some t"
  shows "locks_acquired (events (transfer DAILY_LIMIT w d req)) = [from_account req, to_account req]
     \<and> locks_acquired (events (transfer DAILY_LIMIT w d
            (req\<lparr> from_account := to_account req, to_account := from_account req \<rparr>)))
         = [to_account req, from_account req]"
  using assms
  by (auto simp: transfer_unfold split: option.splits)

theorem lock_order_follows_direction_witness:
  "from_account (sample_request 3 1 100) \<noteq> to_account (sample_request 3 1 100)
   \<and> find (\<lambda>a. account_id a = from_account (sample_request 3 1 100)) (accounts sample_db)
        = Some (sample_account 3 (Fin 250) ''ACTIVE'')
   \<and> find (\<lambda>a. account_id a = to_account (sample_request 3 1 100)) (accounts sample_db)
        = Some (sample_account 1 (Fin 5000) ''ACTIVE'')
   \<and> locks_acquired (events (transfer (Fin 200000) sample_world sample_db (sample_request 3 1 100)))
        = [from_account (sample_request 3 1 100), to_account (sample_request 3 1 100)]
   \<and> locks_acquired (events (transfer (Fin 200000) sample_world sample_db
          ((sample_request 3 1 100)\<lparr> from_account := to_account (sample_request 3 1 100),
                                       to_account := from_account (sample_request 3 1 100) \<rparr>)))
        = [to_account (sample_request 3 1 100), from_account (sample_request 3 1 100)]"
proof -
  have a: "from_account (sample_request 3 1 100) \<noteq> to_account (sample_request 3 1 100)"
    by (simp add: sample_request_def)
  have s: "find (\<lambda>a. account_id a = from_account (sample_request 3 1 100)) (accounts sample_db)
        = Some (sample_account 3 (Fin 250) ''ACTIVE'')"
    by (simp add: sample_request_def)
  have t: "find (\<lambda>a. account_id a = to_account (sample_request 3 1 100)) (accounts sample_db)
        = Some (sample_account 1 (Fin 5000) ''ACTIVE'')"
    by (simp add: sample_request_def)
  from lock_order_follows_direction [OF a s t, of "Fin 200000" sample_world] a s t
  show ?thesis by blast
qed

text \<open>
  C5, as the claim states it, fails: the locks are not taken in one global order. The
  transfers 1 to 3 and 3 to 1 lock the same two rows in opposite orders, and the second
  one not in ascending \<^verbatim>\<open>account_id\<close>.
\<close>

theorem lock_order_counterexample:
  "locks_acquired (events (transfer (Fin 200000) sample_world sample_db (sample_request 1 3 100))) = [1, 3]
   \<and> locks_acquired (events (transfer (Fin 200000) sample_world sample_db (sample_request 3 1 100))) = [3, 1]
   \<and> \<not> sorted (locks_acquired (events (transfer (Fin 200000) sample_world sample_db (sample_request 3 1 100))))"
  by (simp add: transfer_def first_for_update_def rejected_def sample_request_def
      sample_account_def dgreater_def todays_transferred_sum_def coalesce_def sample_db_def
      sample_world_def round_double_eval)

section \<open>The representation of money (C6)\<close>

text \<open>
  C6, as the code has it. Decimals exist at the request boundary only. The balance that
  \<^verbatim>\<open>create_account\<close> stores and the amount that \<^verbatim>\<open>transfer\<close> moves, logs and
  returns are \<^verbatim>\<open>float(decimal)\<close>: the nearest binary64 value, within a relative error
  of \<open>2 ^ -53\<close> of the decimal; the balances are then updated by binary64 subtraction
  and addition.
\<close>

theorem money_is_binary64:
  "(\<forall>b. condecimal b \<longrightarrow> (\<exists>r. float_of_decimal b = Fin r \<and> \<bar>r - b\<bar> \<le> \<bar>b\<bar> / 2 ^ 53))
   \<and> (\<forall>w d req b resp d'.
         initial_balance req = Some b \<and> create_account w d req = (Inr resp, d') \<longrightarrow>
         resp_balance resp = float_of_decimal b
         \<and> balance_of d' (resp_account_id resp) = Some (float_of_decimal b))
   \<and> (\<forall>lim w d req r.
         result (transfer lim w d req) = Inr r \<longrightarrow>
         resp_amount r = float_of_decimal (amount req)
         \<and> tx_amount (last (transactions (store (transfer lim w d req))))
             = float_of_decimal (amount req)
         \<and> (\<exists>s t. find (\<lambda>a. account_id a = from_account req) (accounts d) = Some s
                \<and> find (\<lambda>a. account_id a = to_account req) (accounts d) = Some t
                \<and> accounts (store (transfer lim w d req)) =
                     update_balance t (dadd (balance t) (float_of_decimal (amount req)))
                       (update_balance s (dsub (balance s) (float_of_decimal (amount req)))
                          (accounts d))))"
proof (intro conjI allI impI)
  fix b assume "condecimal b"
  then show "\<exists>r. float_of_decimal b = Fin r \<and> \<bar>r - b\<bar> \<le> \<bar>b\<bar> / 2 ^ 53"
    by (rule float_of_decimal_error)
next
  fix w :: world and d d' :: db and req :: CreateAccountRequest and b :: decimal
    and resp :: CreateAccountResponse
  assume a: "initial_balance req = Some b \<and> create_account w d req = (Inr resp, d')"
  then have c: "create_account w d req = (Inr resp, d')" and b: "initial_balance req = Some b"
    by simp_all
  from create_account_Inr [OF c] b create_account_ok [of req b d w] c
  show "resp_balance resp = float_of_decimal b"
    and "balance_of d' (resp_account_id resp) = Some (float_of_decimal b)"
    by auto
next
  fix lim w d req r
  assume ok: "result (transfer lim w d req) = Inr r"
  from transfer_Inr [OF ok] show "resp_amount r = float_of_decimal (amount req)" by auto
  from transfer_Inr [OF ok]
  show "tx_amount (last (transactions (store (transfer lim w d req)))) = float_of_decimal (amount req)"
    by auto
  from transfer_Inr [OF ok]
  show "\<exists>s t. find (\<lambda>a. account_id a = from_account req) (accounts d) = Some s
                \<and> find (\<lambda>a. account_id a = to_account req) (accounts d) = Some t
                \<and> accounts (store (transfer lim w d req)) =
                     update_balance t (dadd (balance t) (float_of_decimal (amount req)))
                       (update_balance s (dsub (balance s) (float_of_decimal (amount req)))
                          (accounts d))"
    by blast
qed

theorem money_is_binary64_witness:
  "condecimal (1 / 10)
   \<and> float_of_decimal (1 / 10) = Fin (3602879701896397 / 36028797018963968)
   \<and> \<bar>3602879701896397 / 36028797018963968 - 1 / 10\<bar> \<le> \<bar>1 / 10 :: rat\<bar> / 2 ^ 53"
proof -
  have c: "condecimal (1 / 10)" by (simp add: condecimal_def)
  from money_is_binary64 c obtain r where
    "float_of_decimal (1 / 10) = Fin r" "\<bar>r - 1 / 10\<bar> \<le> \<bar>1 / 10\<bar> / 2 ^ 53"
    by blast
  with c float_tenth show ?thesis by simp
qed

text \<open>
  C6, as the claim states it, fails: an account opened with the valid decimal 0.10 is
  stored, and reported, with the binary64 value 3602879701896397 / 36028797018963968,
  which is not one tenth.
\<close>

theorem exact_decimal_counterexample:
  "condecimal (1 / 10)
   \<and> fst (create_account sample_world sample_db (sample_create (1 / 10)))
       = Inr \<lparr> resp_account_id = 4, resp_balance = Fin (3602879701896397 / 36028797018963968) \<rparr>
   \<and> balance_of (snd (create_account sample_world sample_db (sample_create (1 / 10)))) 4
       = Some (Fin (3602879701896397 / 36028797018963968))
   \<and> (3602879701896397 / 36028797018963968 :: rat) \<noteq> 1 / 10"
  by (simp add: condecimal_def create_account_def sample_create_def sample_db_def
      sample_account_def sample_world_def next_rowid_def sample_numbers float_tenth balance_of_def)

section \<open>Order of the precondition checks (C7)\<close>

text \<open>
  C7. \<^verbatim>\<open>transfer\<close> checks its preconditions in the order self-transfer, existence of
  both accounts, source status, destination status, sufficient balance, daily limit, and
  each failure has its own error. In particular a transfer from an account whose status is
  not \<^verbatim>\<open>ACTIVE\<close> (such as \<^verbatim>\<open>FROZEN\<close>) returns the source-cannot-transact error
  whatever the balance, the destination status or the limit, and leaves the store, and so
  both balances, unchanged.
\<close>

theorem transfer_checks_in_order:
  "(from_account req = to_account req \<longrightarrow>
      result (transfer DAILY_LIMIT w d req) = Inl (HTTPException 400 MustDiffer))
   \<and> (from_account req \<noteq> to_account req \<longrightarrow>
        (find (\<lambda>a. account_id a = from_account req) (accounts d) = None
           \<or> find (\<lambda>a. account_id a = to_account req) (accounts d) = None \<longrightarrow>
         result (transfer DAILY_LIMIT w d req) = Inl (HTTPException 404 AccountNotFound))
      \<and> (\<forall>s t. find (\<lambda>a. account_id a = from_account req) (accounts d) = Some s
             \<and> find (\<lambda>a. account_id a = to_account req) (accounts d) = Some t \<longrightarrow>
           (status s \<noteq> ''ACTIVE'' \<longrightarrow>
              result (transfer DAILY_LIMIT w d req)
                = Inl (HTTPException 400 (SourceCannotTransact (status s)))
              \<and> store (transfer DAILY_LIMIT w d req) = d)
         \<and> (status s = ''ACTIVE'' \<and> status t \<noteq> ''ACTIVE'' \<longrightarrow>
              result (transfer DAILY_LIMIT w d req)
                = Inl (HTTPException 400 (DestinationCannotReceive (status t))))
         \<and> (status s = ''ACTIVE'' \<and> status t = ''ACTIVE''
              \<and> dless (balance s) (float_of_decimal (amount req)) \<longrightarrow>
              result (transfer DAILY_LIMIT w d req) = Inl (HTTPException 400 InsufficientFunds))
         \<and> (status s = ''ACTIVE'' \<and> status t = ''ACTIVE''
              \<and> \<not> dless (balance s) (float_of_decimal (amount req))
              \<and> dgreater (dadd (todays_transferred_sum w d (from_account req))
                                (float_of_decimal (amount req))) DAILY_LIMIT \<longrightarrow>
              result (transfer DAILY_LIMIT w d req)
                = Inl (HTTPException 400
                        (DailyLimitExceeded DAILY_LIMIT
                           (todays_transferred_sum w d (from_account req))
                           (float_of_decimal (amount req)))))))
   \<and> distinct [HTTPException 400 MustDiffer, HTTPException 404 AccountNotFound,
                HTTPException 400 (SourceCannotTransact st1),
                HTTPException 400 (DestinationCannotReceive st2),
                HTTPException 400 InsufficientFunds,
                HTTPException 400 (DailyLimitExceeded l a b)]"
  by (auto simp: transfer_unfold split: option.splits)

theorem transfer_checks_in_order_witness:
  "from_account (sample_request 2 3 6000) \<noteq> to_account (sample_request 2 3 6000)
   \<and> find (\<lambda>a. account_id a = from_account (sample_request 2 3 6000)) (accounts sample_db)
       = Some (sample_account 2 (Fin 700) ''FROZEN'')
   \<and> find (\<lambda>a. account_id a = to_account (sample_request 2 3 6000)) (accounts sample_db)
       = Some (sample_account 3 (Fin 250) ''ACTIVE'')
   \<and> dless (balance (sample_account 2 (Fin 700) ''FROZEN'')) (float_of_decimal 6000)
   \<and> result (transfer (Fin 200000) sample_world sample_db (sample_request 2 3 6000))
       = Inl (HTTPException 400 (SourceCannotTransact ''FROZEN''))
   \<and> store (transfer (Fin 200000) sample_world sample_db (sample_request 2 3 6000)) = sample_db"
proof -
  have a: "from_account (sample_request 2 3 6000) \<noteq> to_account (sample_request 2 3 6000)"
    by (simp add: sample_request_def)
  have s: "find (\<lambda>a. account_id a = from_account (sample_request 2 3 6000)) (accounts sample_db)
       = Some (sample_account 2 (Fin 700) ''FROZEN'')"
    by (simp add: sample_request_def)
  have t: "find (\<lambda>a. account_id a = to_account (sample_request 2 3 6000)) (accounts sample_db)
       = Some (sample_account 3 (Fin 250) ''ACTIVE'')"
    by (simp add: sample_request_def)
  have f: "status (sample_account 2 (Fin 700) ''FROZEN'') = ''FROZEN''"
    "''FROZEN'' \<noteq> ''ACTIVE''"
    by (simp_all add: sample_account_def)
  have b: "dless (balance (sample_account 2 (Fin 700) ''FROZEN'')) (float_of_decimal 6000)"
    by (simp add: sample_account_def float_6000)
  from transfer_checks_in_order [of "sample_request 2 3 6000" "Fin 200000" sample_world sample_db]
    a s t f
  have "result (transfer (Fin 200000) sample_world sample_db (sample_request 2 3 6000))
       = Inl (HTTPException 400 (SourceCannotTransact ''FROZEN''))
     \<and> store (transfer (Fin 200000) sample_world sample_db (sample_request 2 3 6000)) = sample_db"
    by metis
  with a s t b show ?thesis by blast
qed

section \<open>Not-found and locks (C8)\<close>

text \<open>
  C8, as the code has it. With two different ids of which at least one names no account,
  \<^verbatim>\<open>transfer\<close> returns the not-found error and leaves the store unchanged. The lookup
  and the lock are one query, so the lookup that misses locks nothing; but the existence
  check comes after both locking lookups, so the account that does exist has been locked,
  is still locked when the error is raised, and is released when the session is closed in
  \<^verbatim>\<open>finally\<close>: once the call has returned no lock is held. With equal ids the call
  returns the self-transfer error before any lookup, whether or not the account exists.
\<close>

theorem missing_account_locks_until_close:
  "(from_account req = to_account req \<longrightarrow>
      result (transfer DAILY_LIMIT w d req) = Inl (HTTPException 400 MustDiffer)
      \<and> store (transfer DAILY_LIMIT w d req) = d
      \<and> events (transfer DAILY_LIMIT w d req) = [Close])
   \<and> (from_account req \<noteq> to_account req
        \<and> (find (\<lambda>a. account_id a = from_account req) (accounts d) = None
             \<or> find (\<lambda>a. account_id a = to_account req) (accounts d) = None) \<longrightarrow>
        result (transfer DAILY_LIMIT w d req) = Inl (HTTPException 404 AccountNotFound)
        \<and> store (transfer DAILY_LIMIT w d req) = d
        \<and> events (transfer DAILY_LIMIT w d req) =
              (case find (\<lambda>a. account_id a = from_account req) (accounts d) of
                 None \<Rightarrow> [] | Some s \<Rightarrow> [LockRow (from_account req)])
              @ (case find (\<lambda>a. account_id a = to_account req) (accounts d) of
                   None \<Rightarrow> [] | Some t \<Rightarrow> [LockRow (to_account req)])
              @ [Close]
        \<and> locks_held (butlast (events (transfer DAILY_LIMIT w d req))) =
              (case find (\<lambda>a. account_id a = from_account req) (accounts d) of
                 None \<Rightarrow> [] | Some s \<Rightarrow> [from_account req])
              @ (case find (\<lambda>a. account_id a = to_account req) (accounts d) of
                   None \<Rightarrow> [] | Some t \<Rightarrow> [to_account req])
        \<and> locks_held (events (transfer DAILY_LIMIT w d req)) = [])"
  by (auto simp: transfer_unfold locks_held_def split: option.splits)

theorem missing_account_locks_until_close_witness:
  "from_account (sample_request 1 4 100) \<noteq> to_account (sample_request 1 4 100)
   \<and> find (\<lambda>a. account_id a = from_account (sample_request 1 4 100)) (accounts sample_db)
        = Some (sample_account 1 (Fin 5000) ''ACTIVE'')
   \<and> find (\<lambda>a. account_id a = to_account (sample_request 1 4 100)) (accounts sample_db) = None
   \<and> result (transfer (Fin 200000) sample_world sample_db (sample_request 1 4 100))
        = Inl (HTTPException 404 AccountNotFound)
   \<and> store (transfer (Fin 200000) sample_world sample_db (sample_request 1 4 100)) = sample_db
   \<and> events (transfer (Fin 200000) sample_world sample_db (sample_request 1 4 100))
        = [LockRow 1, Close]
   \<and> locks_held (butlast (events (transfer (Fin 200000) sample_world sample_db
          (sample_request 1 4 100)))) = [1]
   \<and> locks_held (events (transfer (Fin 200000) sample_world sample_db (sample_request 1 4 100)))
        = []"
proof -
  have a: "from_account (sample_request 1 4 100) \<noteq> to_account (sample_request 1 4 100)"
    by (simp add: sample_request_def)
  have s: "find (\<lambda>a. account_id a = from_account (sample_request 1 4 100)) (accounts sample_db)
        = Some (sample_account 1 (Fin 5000) ''ACTIVE'')"
    by (simp add: sample_request_def)
  have t: "find (\<lambda>a. account_id a = to_account (sample_request 1 4 100)) (accounts sample_db) = None"
    by (simp add: sample_request_def)
  have f: "from_account (sample_request 1 4 100) = 1" by (simp add: sample_request_def)
  from missing_account_locks_until_close
    [of "sample_request 1 4 100" "Fin 200000" sample_world sample_db] a s t
  have "result (transfer (Fin 200000) sample_world sample_db (sample_request 1 4 100))
        = Inl (HTTPException 404 AccountNotFound)
     \<and> store (transfer (Fin 200000) sample_world sample_db (sample_request 1 4 100)) = sample_db
     \<and> events (transfer (Fin 200000) sample_world sample_db (sample_request 1 4 100))
        = [LockRow 1, Close]
     \<and> locks_held (butlast (events (transfer (Fin 200000) sample_world sample_db
          (sample_request 1 4 100)))) = [1]
     \<and> locks_held (events (transfer (Fin 200000) sample_world sample_db (sample_request 1 4 100)))
        = []"
    by (simp add: f locks_held_def)
  with a s t show ?thesis by blast
qed

text \<open>
  C8, as the claim states it, fails. The source 4 does not exist: the lookup of 4 misses,
  the lookup of 3 then locks row 3, and row 3 is locked when the not-found error is
  raised, past the failed lookup, until the session closes. Likewise the transfer from 1
  to the missing 4 holds the lock on row 1 past the failed lookup of 4. And the transfer
  from the missing account 5 to itself returns the self-transfer error, not not-found.
\<close>

theorem lock_held_past_failed_lookup:
  "find (\<lambda>a. account_id a = 4) (accounts sample_db) = None
   \<and> first_for_update sample_db 4 = (None, [])
   \<and> first_for_update sample_db 3 = (Some (sample_account 3 (Fin 250) ''ACTIVE''), [LockRow 3])
   \<and> result (transfer (Fin 200000) sample_world sample_db (sample_request 4 3 100))
        = Inl (HTTPException 404 AccountNotFound)
   \<and> events (transfer (Fin 200000) sample_world sample_db (sample_request 4 3 100))
        = [LockRow 3, Close]
   \<and> locks_held (butlast (events (transfer (Fin 200000) sample_world sample_db
          (sample_request 4 3 100)))) = [3]
   \<and> events (transfer (Fin 200000) sample_world sample_db (sample_request 1 4 100))
        = [LockRow 1, Close]
   \<and> locks_held (butlast (events (transfer (Fin 200000) sample_world sample_db
          (sample_request 1 4 100)))) = [1]
   \<and> find (\<lambda>a. account_id a = 5) (accounts sample_db) = None
   \<and> result (transfer (Fin 200000) sample_world sample_db (sample_request 5 5 100))
        = Inl (HTTPException 400 MustDiffer)"
  by (simp add: transfer_def first_for_update_def rejected_def sample_request_def locks_held_def)
    (simp add: sample_db_def sample_account_def)

section \<open>Frame of a successful transfer (C9)\<close>

text \<open>
  C9. Frame: a successful \<^verbatim>\<open>transfer\<close> changes nothing but the two balances. The
  table keeps its rows in place; in every row the primary key, \<^verbatim>\<open>account_id\<close>,
  \<^verbatim>\<open>customer_id\<close>, \<^verbatim>\<open>account_number\<close>, \<^verbatim>\<open>account_type\<close>, \<^verbatim>\<open>currency\<close>,
  \<^verbatim>\<open>customer_name\<close>, \<^verbatim>\<open>status\<close> and \<^verbatim>\<open>created_at\<close> are unchanged; every row
  that is neither the source nor the destination is unchanged altogether; and the log is
  the old log followed by the one new \<^verbatim>\<open>Transaction\<close> of this transfer. The primary key
  of the table is unique, as the schema declares it.
\<close>

theorem transfer_frame:
  assumes pk: "distinct (map acc_id (accounts d))"
    and ok: "result (transfer DAILY_LIMIT w d req) = Inr r"
  shows "length (accounts (store (transfer DAILY_LIMIT w d req))) = length (accounts d)
     \<and> (\<forall>i < length (accounts d).
           acc_id (accounts (store (transfer DAILY_LIMIT w d req)) ! i) = acc_id (accounts d ! i)
         \<and> account_id (accounts (store (transfer DAILY_LIMIT w d req)) ! i) = account_id (accounts d ! i)
         \<and> customer_id (accounts (store (transfer DAILY_LIMIT w d req)) ! i) = customer_id (accounts d ! i)
         \<and> account_number (accounts (store (transfer DAILY_LIMIT w d req)) ! i) = account_number (accounts d ! i)
         \<and> account_type (accounts (store (transfer DAILY_LIMIT w d req)) ! i) = account_type (accounts d ! i)
         \<and> currency (accounts (store (transfer DAILY_LIMIT w d req)) ! i) = currency (accounts d ! i)
         \<and> customer_name (accounts (store (transfer DAILY_LIMIT w d req)) ! i) = customer_name (accounts d ! i)
         \<and> status (accounts (store (transfer DAILY_LIMIT w d req)) ! i) = status (accounts d ! i)
         \<and> created_at (accounts (store (transfer DAILY_LIMIT w d req)) ! i) = created_at (accounts d ! i)
         \<and> (account_id (accounts d ! i) \<noteq> from_account req
              \<and> account_id (accounts d ! i) \<noteq> to_account req \<longrightarrow>
              accounts (store (transfer DAILY_LIMIT w d req)) ! i = accounts d ! i))
     \<and> transactions (store (transfer DAILY_LIMIT w d req)) =
           transactions d @ [\<lparr> tx_id = next_rowid (map tx_id (transactions d)),
                                tx_from_account = from_account req,
                                tx_to_account = to_account req,
                                tx_amount = float_of_decimal (amount req),
                                tx_created_at = utcnow w \<rparr>]"
proof -
  from transfer_Inr [OF ok] obtain s t where
    s: "find (\<lambda>a. account_id a = from_account req) (accounts d) = Some s" and
    t: "find (\<lambda>a. account_id a = to_account req) (accounts d) = Some t" and
    acc: "accounts (store (transfer DAILY_LIMIT w d req)) =
            update_balance t (dadd (balance t) (float_of_decimal (amount req)))
              (update_balance s (dsub (balance s) (float_of_decimal (amount req))) (accounts d))" and
    txs: "transactions (store (transfer DAILY_LIMIT w d req)) =
            transactions d @ [\<lparr> tx_id = next_rowid (map tx_id (transactions d)),
                                 tx_from_account = from_account req,
                                 tx_to_account = to_account req,
                                 tx_amount = float_of_decimal (amount req),
                                 tx_created_at = utcnow w \<rparr>]"
    by blast
  from s t have sin: "s \<in> set (accounts d)" "account_id s = from_account req"
    and tin: "t \<in> set (accounts d)" "account_id t = to_account req"
    by (auto dest: find_Some_set)
  have other: "accounts (store (transfer DAILY_LIMIT w d req)) ! i = accounts d ! i"
    if i: "i < length (accounts d)"
      and ne: "account_id (accounts d ! i) \<noteq> from_account req" "account_id (accounts d ! i) \<noteq> to_account req"
    for i
  proof -
    have m: "accounts d ! i \<in> set (accounts d)" using i by simp
    have "acc_id (accounts d ! i) \<noteq> acc_id s"
      using distinct_map_eq [OF pk m sin(1)] ne sin(2) by auto
    moreover have "acc_id (accounts d ! i) \<noteq> acc_id t"
      using distinct_map_eq [OF pk m tin(1)] ne tin(2) by auto
    ultimately show ?thesis using i by (simp add: acc update_balance_nth)
  qed
  have fields: "acc_id (accounts (store (transfer DAILY_LIMIT w d req)) ! i) = acc_id (accounts d ! i)
         \<and> account_id (accounts (store (transfer DAILY_LIMIT w d req)) ! i) = account_id (accounts d ! i)
         \<and> customer_id (accounts (store (transfer DAILY_LIMIT w d req)) ! i) = customer_id (accounts d ! i)
         \<and> account_number (accounts (store (transfer DAILY_LIMIT w d req)) ! i) = account_number (accounts d ! i)
         \<and> account_type (accounts (store (transfer DAILY_LIMIT w d req)) ! i) = account_type (accounts d ! i)
         \<and> currency (accounts (store (transfer DAILY_LIMIT w d req)) ! i) = currency (accounts d ! i)
         \<and> customer_name (accounts (store (transfer DAILY_LIMIT w d req)) ! i) = customer_name (accounts d ! i)
         \<and> status (accounts (store (transfer DAILY_LIMIT w d req)) ! i) = status (accounts d ! i)
         \<and> created_at (accounts (store (transfer DAILY_LIMIT w d req)) ! i) = created_at (accounts d ! i)"
    if i: "i < length (accounts d)" for i
    using i by (simp add: acc update_balance_nth)
  show ?thesis using other fields txs by (simp add: acc)
qed

theorem transfer_frame_witness:
  "distinct (map acc_id (accounts sample_db))
   \<and> result (transfer (Fin 200000) sample_world sample_db (sample_request 1 3 100))
       = Inr \<lparr> resp_from_account = 1, resp_to_account = 3, resp_amount = Fin 100 \<rparr>
   \<and> status (accounts (store (transfer (Fin 200000) sample_world sample_db (sample_request 1 3 100))) ! 0)
       = status (accounts sample_db ! 0)
   \<and> accounts (store (transfer (Fin 200000) sample_world sample_db (sample_request 1 3 100))) ! 1
       = accounts sample_db ! 1
   \<and> transactions (store (transfer (Fin 200000) sample_world sample_db (sample_request 1 3 100)))
       = [\<lparr> tx_id = 1, tx_from_account = 1, tx_to_account = 3, tx_amount = Fin 100,
            tx_created_at = 1728003600000000 \<rparr>]"
proof -
  have pk: "distinct (map acc_id (accounts sample_db))"
    by (simp add: sample_db_def sample_account_def)
  note ok = sample_transfer_1_3_ok
  have i: "(0::nat) < length (accounts sample_db)" "(1::nat) < length (accounts sample_db)"
    by (simp_all add: sample_db_def)
  have ne: "account_id (accounts sample_db ! 1) \<noteq> from_account (sample_request 1 3 100)"
    "account_id (accounts sample_db ! 1) \<noteq> to_account (sample_request 1 3 100)"
    by (simp_all add: sample_db_def sample_account_def sample_request_def)
  have tx: "transactions sample_db @ [\<lparr> tx_id = next_rowid (map tx_id (transactions sample_db)),
                                tx_from_account = from_account (sample_request 1 3 100),
                                tx_to_account = to_account (sample_request 1 3 100),
                                tx_amount = float_of_decimal (amount (sample_request 1 3 100)),
                                tx_created_at = utcnow sample_world \<rparr>]
       = [\<lparr> tx_id = 1, tx_from_account = 1, tx_to_account = 3, tx_amount = Fin 100,
            tx_created_at = 1728003600000000 \<rparr>]"
    by (simp add: sample_db_def sample_request_def sample_world_def next_rowid_def)
  from transfer_frame [OF pk ok] i ne tx pk ok
  show ?thesis by metis
qed

section \<open>Opening balances (C10)\<close>

text \<open>
  C10. \<^verbatim>\<open>create_account\<close> places no lower bound on \<^verbatim>\<open>initial_balance\<close>: every
  request whose opening balance is a valid negative decimal (and whose account number is
  new, the store accepting the commit) succeeds and persists a negative balance, and there
  is such a request. The invariant \<^verbatim>\<open>balance >= 0\<close> is not established when an account
  is created.
\<close>

theorem create_account_accepts_negative_balance:
  "(\<forall>w d req b.
      initial_balance req = Some b \<and> condecimal b \<and> b < 0
      \<and> req_account_number req \<notin> set (map account_number (accounts d))
      \<and> commit_error w = None \<longrightarrow>
      (\<exists>resp d' r. create_account w d req = (Inr resp, d')
         \<and> resp_balance resp = Fin r \<and> r < 0
         \<and> balance_of d' (resp_account_id resp) = Some (Fin r)))
   \<and> (\<exists>w d req b resp d' r.
         initial_balance req = Some b \<and> condecimal b \<and> b < 0
         \<and> create_account w d req = (Inr resp, d')
         \<and> resp_balance resp = Fin r \<and> r < 0
         \<and> balance_of d' (resp_account_id resp) = Some (Fin r))"
proof (intro conjI allI impI)
  fix w :: world and d :: db and b :: decimal and req :: CreateAccountRequest
  assume a: "initial_balance req = Some b \<and> condecimal b \<and> b < 0
      \<and> req_account_number req \<notin> set (map account_number (accounts d))
      \<and> commit_error w = None"
  then obtain r where r: "float_of_decimal b = Fin r" "r < 0"
    using float_of_decimal_negative [of b] by blast
  from a create_account_ok [of req b d w] obtain resp d' where
    "create_account w d req = (Inr resp, d')" "resp_balance resp = float_of_decimal b"
    "balance_of d' (resp_account_id resp) = Some (float_of_decimal b)"
    by blast
  with r show "\<exists>resp d' r. create_account w d req = (Inr resp, d')
         \<and> resp_balance resp = Fin r \<and> r < 0
         \<and> balance_of d' (resp_account_id resp) = Some (Fin r)"
    by auto
next
  have "initial_balance (sample_create (- 50)) = Some (- 50)" by (simp add: sample_create_def)
  moreover have "condecimal (- 50)" by (simp add: condecimal_def)
  moreover have "balance_of (snd (create_account sample_world sample_db (sample_create (- 50)))) 4
      = Some (Fin (- 50))"
    unfolding sample_create_negative by (simp add: balance_of_def sample_db_def sample_account_def)
  ultimately show "\<exists>w d req b resp d' r.
         initial_balance req = Some b \<and> condecimal b \<and> b < 0
         \<and> create_account w d req = (Inr resp, d')
         \<and> resp_balance resp = Fin r \<and> r < 0
         \<and> balance_of d' (resp_account_id resp) = Some (Fin r)"
    using sample_create_negative
    by (intro exI [of _ sample_world] exI [of _ sample_db] exI [of _ "sample_create (- 50)"]
        exI [of _ "- 50"] exI [of _ "\<lparr> resp_account_id = 4, resp_balance = Fin (- 50) \<rparr>"]
        exI [of _ "snd (create_account sample_world sample_db (sample_create (- 50)))"]
        exI [of _ "- 50"]) simp
qed

theorem create_account_accepts_negative_balance_witness:
  "initial_balance (sample_create (- 50)) = Some (- 50) \<and> condecimal (- 50) \<and> (- 50 :: rat) < 0
   \<and> req_account_number (sample_create (- 50)) \<notin> set (map account_number (accounts sample_db))
   \<and> commit_error sample_world = None
   \<and> (\<exists>resp d' r. create_account sample_world sample_db (sample_create (- 50)) = (Inr resp, d')
         \<and> resp_balance resp = Fin r \<and> r < 0
         \<and> balance_of d' (resp_account_id resp) = Some (Fin r))"
proof -
  have h: "initial_balance (sample_create (- 50)) = Some (- 50)" "condecimal (- 50)" "(- 50 :: rat) < 0"
    "req_account_number (sample_create (- 50)) \<notin> set (map account_number (accounts sample_db))"
    "commit_error sample_world = None"
    by (simp_all add: sample_create_def condecimal_def sample_db_def sample_account_def
        sample_numbers sample_world_def)
  from create_account_accepts_negative_balance h
  have "\<exists>resp d' r. create_account sample_world sample_db (sample_create (- 50)) = (Inr resp, d')
         \<and> resp_balance resp = Fin r \<and> r < 0
         \<and> balance_of d' (resp_account_id resp) = Some (Fin r)"
    by blast
  with h show ?thesis by blast
qed

end
